theory Spec2Isabelle
  imports Complex_Main "HOL-Library.Multiset"
begin

section \<open>Python values\<close>

text \<open>
  A Python \<^verbatim>\<open>str\<close> is a sequence of Unicode code points, and \<^verbatim>\<open>len\<close> counts code
  points, so a string is a list of code points (natural numbers), written in hexadecimal.
  Python floats are modelled by the reals: the weights, thresholds and densities below are
  the exact values of the source's literals and quotients, without binary rounding.
  Counts (\<^verbatim>\<open>len\<close>, \<^verbatim>\<open>sum(1 for ...)\<close>) are natural numbers.
\<close>

type_synonym uchar = nat
type_synonym ustring = "nat list"

datatype py_error = ZeroDivisionError

text \<open>\<^verbatim>\<open>a / b\<close> raises \<^verbatim>\<open>ZeroDivisionError\<close> when \<^verbatim>\<open>b\<close> is zero.\<close>

definition py_div :: "real \<Rightarrow> real \<Rightarrow> py_error + real" where
  "py_div a b = (if b = 0 then Inl ZeroDivisionError else Inr (a / b))"

text \<open>
  What the code takes from outside the repository: the tokenizer \<^verbatim>\<open>jieba.lcut\<close> and the
  Unicode character classes behind \<^verbatim>\<open>str.strip\<close> and \<^verbatim>\<open>\s\<close>, \<^verbatim>\<open>str.isalpha\<close>, and the
  regular expression classes \<^verbatim>\<open>\d\<close> and \<^verbatim>\<open>\w\<close>.
\<close>

record env =
  lcut :: "ustring \<Rightarrow> ustring list"
  isspace :: "uchar \<Rightarrow> bool"
  isdigit :: "uchar \<Rightarrow> bool"
  isalpha :: "uchar \<Rightarrow> bool"
  isword :: "uchar \<Rightarrow> bool"

text \<open>\<^verbatim>\<open>s.strip()\<close>\<close>

definition strip :: "'a env_scheme \<Rightarrow> ustring \<Rightarrow> ustring" where
  "strip E s = rev (dropWhile (isspace E) (rev (dropWhile (isspace E) s)))"

text \<open>\<^verbatim>\<open>s.replace(' ', '')\<close>\<close>

definition replace_spaces :: "ustring \<Rightarrow> ustring" where
  "replace_spaces s = filter (\<lambda>c. c \<noteq> 0x20) s"

text \<open>\<^verbatim>\<open>t in w\<close> on strings: \<^verbatim>\<open>t\<close> occurs in \<^verbatim>\<open>w\<close> as a contiguous substring.\<close>

fun starts_with :: "ustring \<Rightarrow> ustring \<Rightarrow> bool" where
  "starts_with [] w = True"
| "starts_with (a # t) [] = False"
| "starts_with (a # t) (b # w) = (a = b \<and> starts_with t w)"

fun py_in :: "ustring \<Rightarrow> ustring \<Rightarrow> bool" where
  "py_in t [] = (t = [])"
| "py_in t (c # w) = (starts_with t (c # w) \<or> py_in t w)"

text \<open>\<^verbatim>\<open>w.isalpha()\<close>: non-empty and every character alphabetic.\<close>

definition str_isalpha :: "'a env_scheme \<Rightarrow> ustring \<Rightarrow> bool" where
  "str_isalpha E w = (w \<noteq> [] \<and> list_all (isalpha E) w)"

subsection \<open>Regular expressions\<close>

text \<open>
  \<^verbatim>\<open>len(re.findall(p, s))\<close>: the scan tries the pattern at each position from left to
  right; after a match it resumes behind the match, otherwise one character further. A
  pattern is given by its matcher, which returns the length of the match at the start of
  a string. None of the patterns below matches the empty string.
\<close>

function re_findall_count :: "(ustring \<Rightarrow> nat option) \<Rightarrow> ustring \<Rightarrow> nat" where
  "re_findall_count m [] = 0"
| "re_findall_count m (c # cs) =
     (case m (c # cs) of
        None \<Rightarrow> re_findall_count m cs
      | Some n \<Rightarrow> Suc (re_findall_count m (drop (n - 1) cs)))"
  by pat_completeness auto
termination
  by (relation "measure (\<lambda>(m, s). length s)") auto

text \<open>\<^verbatim>\<open>\d+\.?\d*\<close>\<close>

definition match_number :: "'a env_scheme \<Rightarrow> ustring \<Rightarrow> nat option" where
  "match_number E s =
     (let n1 = length (takeWhile (isdigit E) s) in
      if n1 = 0 then None
      else
        let r1 = drop n1 s;
            n2 = (case r1 of [] \<Rightarrow> 0 | x # _ \<Rightarrow> if x = 0x2E then 1 else 0);
            n3 = length (takeWhile (isdigit E) (drop n2 r1))
        in Some (n1 + n2 + n3))"

text \<open>The inline code span, a backquote, one or more other characters, a backquote.\<close>

definition match_inline_code :: "ustring \<Rightarrow> nat option" where
  "match_inline_code s =
     (case s of
        [] \<Rightarrow> None
      | c # cs \<Rightarrow>
          if c \<noteq> 0x60 then None
          else
            let body = takeWhile (\<lambda>x. x \<noteq> 0x60) cs in
            if body = [] \<or> length body = length cs then None
            else Some (length body + 2))"

text \<open>\<^verbatim>\<open>\[([^\]]+)\]\([^\)]+\)\<close>\<close>

definition match_link :: "ustring \<Rightarrow> nat option" where
  "match_link s =
     (case s of
        [] \<Rightarrow> None
      | c # cs \<Rightarrow>
          if c \<noteq> 0x5B then None
          else
            let label = takeWhile (\<lambda>x. x \<noteq> 0x5D) cs in
            if label = [] then None
            else
              (case drop (length label) cs of
                 a # b # r \<Rightarrow>
                   if a = 0x5D \<and> b = 0x28 then
                     (let target = takeWhile (\<lambda>x. x \<noteq> 0x29) r in
                      if target = [] \<or> length target = length r then None
                      else Some (length label + length target + 4))
                   else None
               | _ \<Rightarrow> None))"

text \<open>
  \<^verbatim>\<open>re.split(p, s)\<close> for a pattern \<^verbatim>\<open>[...]+\<close>, one or more characters of a class: the
  pieces between the maximal runs of separator characters, empty pieces at the ends
  included.
\<close>

function re_split :: "(uchar \<Rightarrow> bool) \<Rightarrow> ustring \<Rightarrow> ustring list" where
  "re_split sep s =
     (let piece = takeWhile (\<lambda>c. \<not> sep c) s;
          rest = dropWhile (\<lambda>c. \<not> sep c) s
      in if rest = [] then [piece] else piece # re_split sep (dropWhile sep rest))"
  by pat_completeness auto
termination
proof (relation "measure (\<lambda>(sep, s). length s)")
  show "wf (measure (\<lambda>(sep, s). length s))"
    by simp
next
  fix sep :: "uchar \<Rightarrow> bool" and s :: ustring and piece rest :: ustring
  assume rest: "rest = dropWhile (\<lambda>c. \<not> sep c) s" and ne: "rest \<noteq> []"
  from ne obtain x xs where cons: "rest = x # xs"
    by (cases rest) auto
  have "sep x"
    using rest cons dropWhile_eq_Cons_conv [of "\<lambda>c. \<not> sep c" s x xs] by simp
  then have "length (dropWhile sep rest) \<le> length xs"
    using cons length_dropWhile_le [of sep xs] by simp
  moreover have "length rest \<le> length s"
    using rest length_dropWhile_le [of "\<lambda>c. \<not> sep c" s] by simp
  ultimately have "length (dropWhile sep rest) < length s"
    using cons by simp
  then show "((sep, dropWhile sep rest), (sep, s)) \<in> measure (\<lambda>(sep, s). length s)"
    by simp
qed

text \<open>The separator class of both analyzers: \<^verbatim>\<open>[\<close>U+3002 U+FF01 U+FF1F\<^verbatim>\<open>\.\!\?]\<close>.\<close>

definition sentence_sep :: "uchar \<Rightarrow> bool" where
  "sentence_sep c = (c = 0x3002 \<or> c = 0xFF01 \<or> c = 0xFF1F \<or> c = 0x2E \<or> c = 0x21 \<or> c = 0x3F)"

section \<open>The plain-text analyzer (\<^verbatim>\<open>docana.py\<close>)\<close>

text \<open>
  Dictionaries with a fixed set of keys are records. A key that occurs in several
  dictionaries of the source gets a prefix naming its dictionary (\<open>doc_total_chars\<close>,
  \<open>qd_high\<close>, \<open>cs_numbers_count\<close>); the analyzer attribute \<^verbatim>\<open>professional_terms\<close> is
  \<open>professional_terms_list\<close>, since the same name is a key of the statistics.
\<close>

record weights =
  number :: real
  time :: real
  entity :: real
  professional :: real
  verb :: real
  conjunction :: real
  modifier :: real

record 'w analyzer =
  weights :: "'w"
  time_keywords :: "ustring list"
  conjunction_keywords :: "ustring list"
  modifier_keywords :: "ustring list"
  professional_terms_list :: "ustring list"

text \<open>\<^verbatim>\<open>PDFInfoDensityAnalyzer.__init__\<close>\<close>

definition PDFInfoDensityAnalyzer :: "weights analyzer" where
  "PDFInfoDensityAnalyzer =
     \<lparr> weights = \<lparr> number = 3.0, time = 2.5, entity = 2.0, professional = 2.0,
                   verb = 1.5, conjunction = 1.0, modifier = - 0.5 \<rparr>,
       time_keywords =
         [[0x5E74], [0x6708], [0x65E5], [0x65F6], [0x5206], [0x79D2], [0x4ECA, 0x5929],
          [0x6628, 0x5929], [0x660E, 0x5929], [0x73B0, 0x5728], [0x76EE, 0x524D],
          [0x5F53, 0x524D], [0x8FD1, 0x671F], [0x6700, 0x8FD1], [0x672A, 0x6765],
          [0x8FC7, 0x53BB], [0x4EE5, 0x524D], [0x4E4B, 0x540E]],
       conjunction_keywords =
         [[0x56E0, 0x6B64], [0x6240, 0x4EE5], [0x7136, 0x800C], [0x4F46, 0x662F],
          [0x540C, 0x65F6], [0x53E6, 0x5916], [0x6B64, 0x5916], [0x800C, 0x4E14],
          [0x4E0D, 0x8FC7], [0x867D, 0x7136], [0x5C3D, 0x7BA1], [0x7531, 0x4E8E],
          [0x9274, 0x4E8E], [0x57FA, 0x4E8E], [0x901A, 0x8FC7]],
       modifier_keywords =
         [[0x5F88], [0x975E, 0x5E38], [0x7279, 0x522B], [0x5341, 0x5206],
          [0x76F8, 0x5F53], [0x6BD4, 0x8F83], [0x8F83, 0x4E3A], [0x6781, 0x5176],
          [0x76F8, 0x5BF9], [0x57FA, 0x672C], [0x5927, 0x6982], [0x53EF, 0x80FD],
          [0x6216, 0x8BB8], [0x4F3C, 0x4E4E], [0x597D, 0x50CF]],
       professional_terms_list =
         [[0x6570, 0x636E], [0x5206, 0x6790], [0x7CFB, 0x7EDF], [0x5E73, 0x53F0],
          [0x6280, 0x672F], [0x7B97, 0x6CD5], [0x6A21, 0x578B], [0x6846, 0x67B6],
          [0x67B6, 0x6784], [0x65B9, 0x6848], [0x7B56, 0x7565], [0x673A, 0x5236],
          [0x6D41, 0x7A0B], [0x6807, 0x51C6], [0x89C4, 0x8303], [0x6307, 0x6807]] \<rparr>"

text \<open>
  The quality labels are the strings U+9AD8 (high), U+4E2D (medium) and U+4F4E (low).
\<close>

definition q_high :: ustring where "q_high = [0x9AD8]"
definition q_medium :: ustring where "q_medium = [0x4E2D]"
definition q_low :: ustring where "q_low = [0x4F4E]"

text \<open>The dictionary \<^verbatim>\<open>stats\<close>, and the result of \<^verbatim>\<open>analyze_sentence\<close>, which merges it.\<close>

record stats =
  numbers :: nat
  time_words :: nat
  professional_terms :: nat
  conjunctions :: nat
  modifiers :: nat
  entities :: nat

record sentence_result = stats +
  sentence :: ustring
  density :: real
  quality :: ustring
  total_chars :: nat
  info_score :: real

definition count_where :: "('a \<Rightarrow> bool) \<Rightarrow> 'a list \<Rightarrow> nat" where
  "count_where P xs = length (filter P xs)"

definition analyze_sentence :: "'a env_scheme \<Rightarrow> weights analyzer \<Rightarrow> ustring \<Rightarrow> sentence_result option" where
  "analyze_sentence E self s =
     (if strip E s = [] then None
      else
        let words = lcut E s;
            n_chars = length (replace_spaces s)
        in
        if n_chars = 0 then None
        else
          let st_numbers = re_findall_count (match_number E) s;
              st_time_words =
                count_where (\<lambda>word. list_ex (\<lambda>t. py_in t word) (time_keywords self)) words;
              st_professional_terms =
                count_where (\<lambda>word. word \<in> set (professional_terms_list self)) words;
              st_conjunctions =
                count_where (\<lambda>word. word \<in> set (conjunction_keywords self)) words;
              st_modifiers =
                count_where (\<lambda>word. word \<in> set (modifier_keywords self)) words;
              st_entities = count_where (\<lambda>w. length w > 1 \<and> str_isalpha E w) words;
              score =
                real st_numbers * number (weights self) +
                real st_time_words * time (weights self) +
                real st_professional_terms * professional (weights self) +
                real st_conjunctions * conjunction (weights self) +
                real st_modifiers * modifier (weights self);
              dens = (if n_chars > 0 then score / real n_chars else 0);
              qual = (if dens > 0.15 then q_high else if dens > 0.08 then q_medium else q_low)
          in
          Some \<lparr> numbers = st_numbers, time_words = st_time_words,
                 professional_terms = st_professional_terms, conjunctions = st_conjunctions,
                 modifiers = st_modifiers, entities = st_entities,
                 sentence = (if length s > 100 then take 100 s @ [0x2E, 0x2E, 0x2E] else s),
                 density = dens, quality = qual, total_chars = n_chars, info_score = score \<rparr>)"

text \<open>
  The result of \<^verbatim>\<open>analyze_text\<close> is a dictionary with the key \<^verbatim>\<open>error\<close> and zeroed
  statistics, or one without that key and with the full statistics; the callers tell
  the two apart by \<^verbatim>\<open>'error' not in r\<close>.
\<close>

record 's error_record =
  err_filename :: ustring
  err_error :: ustring
  err_total_sentences :: nat
  err_average_density :: real
  err_high_quality_ratio :: real
  err_sentences :: "'s list"

record quality_distribution =
  qd_high :: nat
  qd_medium :: nat
  qd_low :: nat

record content_stats =
  cs_numbers_count :: nat
  cs_time_words_count :: nat
  cs_avg_sentence_length :: real

record ('s, 'c) doc_record =
  filename :: ustring
  total_sentences :: nat
  doc_total_chars :: nat
  average_density :: real
  high_quality_ratio :: real
  quality_distribution :: quality_distribution
  content_stats :: "'c"
  sentences :: "'s list"

datatype ('e, 'd) doc = Error_doc 'e | Valid_doc 'd

type_synonym pdf_doc =
  "(sentence_result error_record, (sentence_result, content_stats) doc_record) doc"

definition error_doc :: "ustring \<Rightarrow> ustring \<Rightarrow> pdf_doc" where
  "error_doc fname msg =
     Error_doc \<lparr> err_filename = fname, err_error = msg, err_total_sentences = 0,
                 err_average_density = 0, err_high_quality_ratio = 0, err_sentences = [] \<rparr>"

text \<open>
  The candidate sentences of the plain-text analyzer:
  \<^verbatim>\<open>[s.strip() for s in re.split(...) if s.strip() and len(s.strip()) > 5]\<close>.
\<close>

definition split_sentences :: "'a env_scheme \<Rightarrow> ustring \<Rightarrow> ustring list" where
  "split_sentences E text =
     map (strip E)
       (filter (\<lambda>s. strip E s \<noteq> [] \<and> length (strip E s) > 5) (re_split sentence_sep text))"

definition analyze_text ::
  "'a env_scheme \<Rightarrow> weights analyzer \<Rightarrow> ustring \<Rightarrow> ustring \<Rightarrow> py_error + pdf_doc" where
  "analyze_text E self text fname =
     (if text = [] then Inr (error_doc fname [0x6587, 0x672C, 0x4E3A, 0x7A7A])
      else
        let sents = split_sentences E text in
        if sents = [] then
          Inr (error_doc fname [0x672A, 0x627E, 0x5230, 0x6709, 0x6548, 0x53E5, 0x5B50])
        else
          let sentence_results = List.map_filter (analyze_sentence E self) sents in
          if sentence_results = [] then
            Inr (error_doc fname [0x53E5, 0x5B50, 0x5206, 0x6790, 0x5931, 0x8D25])
          else
            let densities = map density sentence_results;
                high_quality_count = count_where (\<lambda>r. quality r = q_high) sentence_results;
                n_total_chars = sum_list (map total_chars sentence_results);
                total_numbers = sum_list (map numbers sentence_results);
                total_time_words = sum_list (map time_words sentence_results)
            in
            (case py_div (sum_list densities) (real (length densities)) of
               Inl e \<Rightarrow> Inl e
             | Inr avg_density \<Rightarrow>
                 (case py_div (real high_quality_count) (real (length sentence_results)) of
                    Inl e \<Rightarrow> Inl e
                  | Inr hq_ratio \<Rightarrow>
                      (case py_div (real n_total_chars) (real (length sentence_results)) of
                         Inl e \<Rightarrow> Inl e
                       | Inr avg_len \<Rightarrow>
                           Inr (Valid_doc
                             \<lparr> filename = fname,
                               total_sentences = length sentence_results,
                               doc_total_chars = n_total_chars,
                               average_density = avg_density,
                               high_quality_ratio = hq_ratio,
                               quality_distribution =
                                 \<lparr> qd_high = count_where (\<lambda>r. quality r = q_high) sentence_results,
                                   qd_medium = count_where (\<lambda>r. quality r = q_medium) sentence_results,
                                   qd_low = count_where (\<lambda>r. quality r = q_low) sentence_results \<rparr>,
                               content_stats =
                                 \<lparr> cs_numbers_count = total_numbers,
                                   cs_time_words_count = total_time_words,
                                   cs_avg_sentence_length = avg_len \<rparr>,
                               sentences = take 10 sentence_results \<rparr>)))))"

subsection \<open>The batch over a folder\<close>






record failed_file =
  failed_filename :: ustring
  failed_error :: ustring




subsection \<open>The summary over the batch\<close>

text \<open>\<^verbatim>\<open>[r for r in results if 'error' not in r]\<close>\<close>

fun valid_results :: "('e, 'd) doc list \<Rightarrow> 'd list" where
  "valid_results [] = []"
| "valid_results (Error_doc e # rs) = valid_results rs"
| "valid_results (Valid_doc d # rs) = d # valid_results rs"

text \<open>
  \<^verbatim>\<open>sorted(xs, key=k, reverse=True)\<close>: descending by key, and stable, elements with equal
  keys staying in the order of \<open>xs\<close>. This is the stable ascending sort by the negated key.
\<close>

definition sorted_reverse :: "('a \<Rightarrow> real) \<Rightarrow> 'a list \<Rightarrow> 'a list" where
  "sorted_reverse k xs = sort_key (\<lambda>x. - k x) xs"

text \<open>
  The numbers that \<^verbatim>\<open>generate_summary_report\<close> computes and prints: the file counts,
  and for a batch with a valid result the overall statistics, the ranking (the first ten
  of the sorted results) and the quality totals.
\<close>

record overall =
  ov_total_sentences :: nat
  ov_total_chars :: nat
  ov_avg_density :: real
  ov_high_quality_sentences :: nat
  ov_high_quality_ratio :: real
  ov_ranking :: "(sentence_result, content_stats) doc_record list"
  ov_quality_totals :: quality_distribution

record summary =
  sum_total_files :: nat
  sum_successful :: nat
  sum_failed :: nat
  sum_overall :: "overall option"
  sum_failed_files :: "failed_file list"

definition generate_summary_report ::
  "pdf_doc list \<Rightarrow> failed_file list \<Rightarrow> py_error + summary" where
  "generate_summary_report results failed_files =
     (let valid = valid_results results;
          head = \<lparr> sum_total_files = length results + length failed_files,
                   sum_successful = length valid,
                   sum_failed = length failed_files,
                   sum_overall = None,
                   sum_failed_files = failed_files \<rparr>
      in
      if valid = [] then Inr head
      else
        let n_sentences = sum_list (map total_sentences valid);
            n_chars = sum_list (map doc_total_chars valid);
            high_quality_sentences = sum_list (map (\<lambda>r. qd_high (quality_distribution r)) valid)
        in
        (case py_div (sum_list (map average_density valid)) (real (length valid)) of
           Inl e \<Rightarrow> Inl e
         | Inr avg_density \<Rightarrow>
             Inr (head \<lparr> sum_overall := Some
               \<lparr> ov_total_sentences = n_sentences,
                 ov_total_chars = n_chars,
                 ov_avg_density = avg_density,
                 ov_high_quality_sentences = high_quality_sentences,
                 ov_high_quality_ratio =
                   (if n_sentences > 0 then real high_quality_sentences / real n_sentences else 0),
                 ov_ranking = take 10 (sorted_reverse average_density valid),
                 ov_quality_totals =
                   \<lparr> qd_high = sum_list (map (\<lambda>r. qd_high (quality_distribution r)) valid),
                     qd_medium = sum_list (map (\<lambda>r. qd_medium (quality_distribution r)) valid),
                     qd_low = sum_list (map (\<lambda>r. qd_low (quality_distribution r)) valid) \<rparr> \<rparr> \<rparr>)))"

section \<open>The markdown analyzer (\<^verbatim>\<open>mdana.py\<close>)\<close>

record md_weights = weights +
  code :: real
  link :: real
  list_item :: real
  heading :: real

text \<open>\<^verbatim>\<open>MarkdownInfoDensityAnalyzer.__init__\<close>\<close>

definition MarkdownInfoDensityAnalyzer :: "md_weights analyzer" where
  "MarkdownInfoDensityAnalyzer =
     \<lparr> weights = \<lparr> number = 3.0, time = 2.5, entity = 2.0, professional = 2.0,
                   verb = 1.5, conjunction = 1.0, modifier = - 0.5,
                   code = 2.5, link = 1.5, list_item = 1.2, heading = 1.8 \<rparr>,
       time_keywords =
         [[0x5E74], [0x6708], [0x65E5], [0x65F6], [0x5206], [0x79D2], [0x4ECA, 0x5929],
          [0x6628, 0x5929], [0x660E, 0x5929], [0x73B0, 0x5728], [0x76EE, 0x524D],
          [0x5F53, 0x524D], [0x8FD1, 0x671F], [0x6700, 0x8FD1], [0x672A, 0x6765],
          [0x8FC7, 0x53BB], [0x4EE5, 0x524D], [0x4E4B, 0x540E],
          [0x32, 0x30, 0x32, 0x33], [0x32, 0x30, 0x32, 0x34], [0x32, 0x30, 0x32, 0x35]],
       conjunction_keywords =
         [[0x56E0, 0x6B64], [0x6240, 0x4EE5], [0x7136, 0x800C], [0x4F46, 0x662F],
          [0x540C, 0x65F6], [0x53E6, 0x5916], [0x6B64, 0x5916], [0x800C, 0x4E14],
          [0x4E0D, 0x8FC7], [0x867D, 0x7136], [0x5C3D, 0x7BA1], [0x7531, 0x4E8E],
          [0x9274, 0x4E8E], [0x57FA, 0x4E8E], [0x901A, 0x8FC7], [0x9996, 0x5148],
          [0x5176, 0x6B21], [0x6700, 0x540E], [0x603B, 0x4E4B], [0x7EFC, 0x4E0A],
          [0x6362, 0x8A00, 0x4E4B]],
       modifier_keywords =
         [[0x5F88], [0x975E, 0x5E38], [0x7279, 0x522B], [0x5341, 0x5206],
          [0x76F8, 0x5F53], [0x6BD4, 0x8F83], [0x8F83, 0x4E3A], [0x6781, 0x5176],
          [0x76F8, 0x5BF9], [0x57FA, 0x672C], [0x5927, 0x6982], [0x53EF, 0x80FD],
          [0x6216, 0x8BB8], [0x4F3C, 0x4E4E], [0x597D, 0x50CF], [0x633A], [0x86EE],
          [0x8FD8, 0x662F], [0x6BD4, 0x8F83]],
       professional_terms_list =
         [[0x7B97, 0x6CD5], [0x6570, 0x636E, 0x7ED3, 0x6784],
          [0x673A, 0x5668, 0x5B66, 0x4E60], [0x6DF1, 0x5EA6, 0x5B66, 0x4E60],
          [0x4EBA, 0x5DE5, 0x667A, 0x80FD], [0x795E, 0x7ECF, 0x7F51, 0x7EDC],
          [0x6570, 0x636E, 0x5E93], [0x67B6, 0x6784], [0x6846, 0x67B6],
          [0x41, 0x50, 0x49], [0x63A5, 0x53E3], [0x534F, 0x8BAE],
          [0x670D, 0x52A1, 0x5668], [0x5BA2, 0x6237, 0x7AEF], [0x524D, 0x7AEF],
          [0x540E, 0x7AEF], [0x5168, 0x6808], [0x5FAE, 0x670D, 0x52A1],
          [0x5BB9, 0x5668], [0x4E91, 0x8BA1, 0x7B97], [0x5927, 0x6570, 0x636E],
          [0x533A, 0x5757, 0x94FE], [0x7269, 0x8054, 0x7F51],
          [0x8FB9, 0x7F18, 0x8BA1, 0x7B97], [0x5206, 0x5E03, 0x5F0F], [0x5E76, 0x53D1],
          [0x5F02, 0x6B65], [0x540C, 0x6B65], [0x7F13, 0x5B58], [0x7D22, 0x5F15],
          [0x4F18, 0x5316], [0x6027, 0x80FD], [0x5B89, 0x5168], [0x52A0, 0x5BC6],
          [0x8BA4, 0x8BC1], [0x6388, 0x6743]] \<rparr>"

text \<open>The dictionary that \<^verbatim>\<open>get_sentence_context\<close> returns.\<close>

record sentence_context =
  is_heading :: bool
  is_list_item :: bool
  is_blockquote :: bool
  heading_level :: nat

text \<open>
  The result of the markdown \<^verbatim>\<open>analyze_sentence\<close>: the keys of the plain-text result,
  and \<^verbatim>\<open>context\<close> (here \<open>ctx\<close>; \<open>None\<close> is the empty dictionary), \<^verbatim>\<open>code_snippets\<close>
  and \<^verbatim>\<open>links\<close>.
\<close>

record md_sentence_result = sentence_result +
  ctx :: "sentence_context option"
  code_snippets :: nat
  links :: nat

definition md_analyze_sentence ::
  "'a env_scheme \<Rightarrow> md_weights analyzer \<Rightarrow> ustring \<Rightarrow> sentence_context option \<Rightarrow>
   md_sentence_result option" where
  "md_analyze_sentence E self s cx =
     (if strip E s = [] then None
      else
        let words = lcut E s;
            n_chars = length (replace_spaces s)
        in
        if n_chars = 0 then None
        else
          let st_numbers = re_findall_count (match_number E) s;
              st_time_words =
                count_where (\<lambda>word. list_ex (\<lambda>t. py_in t word) (time_keywords self)) words;
              st_professional_terms =
                count_where (\<lambda>word. word \<in> set (professional_terms_list self)) words;
              st_conjunctions =
                count_where (\<lambda>word. word \<in> set (conjunction_keywords self)) words;
              st_modifiers =
                count_where (\<lambda>word. word \<in> set (modifier_keywords self)) words;
              st_entities = count_where (\<lambda>w. length w > 1 \<and> str_isalpha E w) words;
              st_code_snippets = re_findall_count match_inline_code s;
              st_links = re_findall_count match_link s;
              context_bonus =
                (case cx of
                   None \<Rightarrow> 0
                 | Some c \<Rightarrow>
                     (if is_heading c then heading (weights self) else 0) +
                     (if is_list_item c then list_item (weights self) else 0));
              score =
                real st_numbers * number (weights self) +
                real st_time_words * time (weights self) +
                real st_professional_terms * professional (weights self) +
                real st_conjunctions * conjunction (weights self) +
                real st_modifiers * modifier (weights self) +
                real st_code_snippets * code (weights self) +
                real st_links * link (weights self) +
                context_bonus;
              dens = (if n_chars > 0 then score / real n_chars else 0);
              qual = (if dens > 0.12 then q_high else if dens > 0.06 then q_medium else q_low)
          in
          Some \<lparr> numbers = st_numbers, time_words = st_time_words,
                 professional_terms = st_professional_terms, conjunctions = st_conjunctions,
                 modifiers = st_modifiers, entities = st_entities,
                 sentence = (if length s > 150 then take 150 s @ [0x2E, 0x2E, 0x2E] else s),
                 density = dens, quality = qual, total_chars = n_chars, info_score = score,
                 ctx = cx, code_snippets = st_code_snippets, links = st_links \<rparr>)"

text \<open>The dictionary that \<^verbatim>\<open>calculate_markdown_stats\<close> returns.\<close>

record markdown_stats =
  ms_headings_count :: nat
  ms_heading_levels :: "(ustring \<times> nat) list"
  ms_code_blocks_count :: nat
  ms_inline_codes_count :: nat
  ms_links_count :: nat
  ms_images_count :: nat
  ms_list_items_count :: nat
  ms_blockquotes_count :: nat
  ms_tables_count :: nat
  ms_emphasis_count :: nat
  ms_total_lines :: nat
  ms_empty_lines :: nat
  ms_content_lines :: nat
  ms_structure_ratio :: real
  ms_code_density :: real

text \<open>
  The scoring takes three things from the markdown source text: the text without markup
  (\<^verbatim>\<open>clean_markdown_text\<close>), the context of a sentence (\<^verbatim>\<open>get_sentence_context\<close>) and
  the structural statistics (\<^verbatim>\<open>calculate_markdown_stats\<close> of
  \<^verbatim>\<open>extract_markdown_elements\<close>). They are chains of regular expression searches over
  the source text; the analysis below uses only their results, so they are parameters,
  as are reading and parsing a file (\<^verbatim>\<open>parse_markdown_file\<close>, which returns the body, the
  front matter and an error message) and \<^verbatim>\<open>os.path.relpath\<close>.
\<close>

record 'fm md_env = env +
  clean_markdown_text :: "ustring \<Rightarrow> ustring"
  get_sentence_context :: "ustring \<Rightarrow> ustring \<Rightarrow> sentence_context"
  calculate_markdown_stats :: "ustring \<Rightarrow> markdown_stats"
  relpath :: "ustring \<Rightarrow> ustring \<Rightarrow> ustring"
  parse_markdown_file :: "ustring \<Rightarrow> ustring option \<times> 'fm \<times> ustring option"

record md_error_record = "md_sentence_result error_record" +
  err_markdown_stats :: "markdown_stats option"

record md_content_stats = content_stats +
  cs_professional_terms_count :: nat
  cs_code_snippets_count :: nat
  cs_links_count :: nat

record md_doc_record = "(md_sentence_result, md_content_stats) doc_record" +
  markdown_stats :: markdown_stats

type_synonym md_doc = "(md_error_record, md_doc_record) doc"

definition md_error_doc :: "ustring \<Rightarrow> ustring \<Rightarrow> markdown_stats option \<Rightarrow> md_doc" where
  "md_error_doc fname msg ms =
     Error_doc \<lparr> err_filename = fname, err_error = msg, err_total_sentences = 0,
                 err_average_density = 0, err_high_quality_ratio = 0, err_sentences = [],
                 err_markdown_stats = ms \<rparr>"

text \<open>
  The candidate sentences of the markdown analyzer:
  \<^verbatim>\<open>[s.strip() for s in re.split(...) if s.strip() and len(s.strip()) > 3]\<close>.
\<close>

definition md_split_sentences :: "'a env_scheme \<Rightarrow> ustring \<Rightarrow> ustring list" where
  "md_split_sentences E text =
     map (strip E)
       (filter (\<lambda>s. strip E s \<noteq> [] \<and> length (strip E s) > 3) (re_split sentence_sep text))"

text \<open>
  \<^verbatim>\<open>analyze_markdown_content\<close>. The content is \<^verbatim>\<open>None\<close> when the file could not be read;
  \<^verbatim>\<open>not content\<close> holds for \<^verbatim>\<open>None\<close> and for the empty string.
\<close>

definition analyze_markdown_content ::
  "('fm, 'a) md_env_scheme \<Rightarrow> md_weights analyzer \<Rightarrow> ustring option \<Rightarrow> ustring \<Rightarrow>
   py_error + md_doc" where
  "analyze_markdown_content E self content_opt fname =
     (case (case content_opt of None \<Rightarrow> None | Some c \<Rightarrow> if c = [] then None else Some c) of
        None \<Rightarrow> Inr (md_error_doc fname [0x5185, 0x5BB9, 0x4E3A, 0x7A7A] None)
      | Some content \<Rightarrow>
          let sents = md_split_sentences E (clean_markdown_text E content) in
          if sents = [] then
            Inr (md_error_doc fname [0x672A, 0x627E, 0x5230, 0x6709, 0x6548, 0x53E5, 0x5B50]
                   (Some (calculate_markdown_stats E content)))
          else
            let sentence_results =
                  List.map_filter
                    (\<lambda>s. md_analyze_sentence E self s (Some (get_sentence_context E s content)))
                    sents
            in
            if sentence_results = [] then
              Inr (md_error_doc fname [0x53E5, 0x5B50, 0x5206, 0x6790, 0x5931, 0x8D25]
                     (Some (calculate_markdown_stats E content)))
            else
              let densities = map density sentence_results;
                  high_quality_count = count_where (\<lambda>r. quality r = q_high) sentence_results
              in
              (case py_div (sum_list densities) (real (length densities)) of
                 Inl e \<Rightarrow> Inl e
               | Inr avg_density \<Rightarrow>
                   (case py_div (real high_quality_count) (real (length sentence_results)) of
                      Inl e \<Rightarrow> Inl e
                    | Inr hq_ratio \<Rightarrow>
                        (case py_div (real (sum_list (map total_chars sentence_results)))
                                (real (length sentence_results)) of
                           Inl e \<Rightarrow> Inl e
                         | Inr avg_len \<Rightarrow>
                             Inr (Valid_doc
                               \<lparr> filename = fname,
                                 total_sentences = length sentence_results,
                                 doc_total_chars = sum_list (map total_chars sentence_results),
                                 average_density = avg_density,
                                 high_quality_ratio = hq_ratio,
                                 quality_distribution =
                                   \<lparr> qd_high = count_where (\<lambda>r. quality r = q_high) sentence_results,
                                     qd_medium = count_where (\<lambda>r. quality r = q_medium) sentence_results,
                                     qd_low = count_where (\<lambda>r. quality r = q_low) sentence_results \<rparr>,
                                 content_stats =
                                   \<lparr> cs_numbers_count = sum_list (map numbers sentence_results),
                                     cs_time_words_count = sum_list (map time_words sentence_results),
                                     cs_avg_sentence_length = avg_len,
                                     cs_professional_terms_count =
                                       sum_list (map professional_terms sentence_results),
                                     cs_code_snippets_count =
                                       sum_list (map code_snippets sentence_results),
                                     cs_links_count = sum_list (map links sentence_results) \<rparr>,
                                 sentences = take 15 sentence_results,
                                 markdown_stats = calculate_markdown_stats E content \<rparr>)))))"

subsection \<open>The batch over a folder of markdown files\<close>




text \<open>The dictionary of \<^verbatim>\<open>calculate_global_stats\<close>; \<open>None\<close> is the empty dictionary.\<close>

record markdown_elements =
  me_total_headings :: nat
  me_total_code_blocks :: nat
  me_total_links :: nat
  me_total_images :: nat
  me_avg_headings_per_doc :: real
  me_avg_code_blocks_per_doc :: real

record content_analysis =
  ca_total_professional_terms :: nat
  ca_total_numbers :: nat
  ca_total_time_words :: nat
  ca_avg_sentence_length :: real

record global_stats =
  gs_total_sentences :: nat
  gs_total_characters :: nat
  gs_average_density :: real
  gs_global_high_quality_ratio :: real
  gs_markdown_elements :: markdown_elements
  gs_content_analysis :: content_analysis

definition calculate_global_stats :: "md_doc list \<Rightarrow> py_error + global_stats option" where
  "calculate_global_stats results =
     (let valid = valid_results results in
      if valid = [] then Inr None
      else
        let n_sentences = sum_list (map total_sentences valid);
            n_chars = sum_list (map doc_total_chars valid);
            total_high_quality = sum_list (map (\<lambda>r. qd_high (quality_distribution r)) valid);
            total_headings = sum_list (map (\<lambda>r. ms_headings_count (markdown_stats r)) valid);
            total_code_blocks = sum_list (map (\<lambda>r. ms_code_blocks_count (markdown_stats r)) valid);
            total_links = sum_list (map (\<lambda>r. ms_links_count (markdown_stats r)) valid);
            total_images = sum_list (map (\<lambda>r. ms_images_count (markdown_stats r)) valid)
        in
        (case py_div (sum_list (map average_density valid)) (real (length valid)) of
           Inl e \<Rightarrow> Inl e
         | Inr avg_density \<Rightarrow>
         (case py_div (real total_headings) (real (length valid)) of
           Inl e \<Rightarrow> Inl e
         | Inr avg_headings \<Rightarrow>
         (case py_div (real total_code_blocks) (real (length valid)) of
           Inl e \<Rightarrow> Inl e
         | Inr avg_code_blocks \<Rightarrow>
         (case py_div (sum_list (map (\<lambda>r. cs_avg_sentence_length (content_stats r)) valid))
                 (real (length valid)) of
           Inl e \<Rightarrow> Inl e
         | Inr avg_len \<Rightarrow>
             Inr (Some
               \<lparr> gs_total_sentences = n_sentences,
                 gs_total_characters = n_chars,
                 gs_average_density = avg_density,
                 gs_global_high_quality_ratio =
                   (if n_sentences > 0 then real total_high_quality / real n_sentences else 0),
                 gs_markdown_elements =
                   \<lparr> me_total_headings = total_headings,
                     me_total_code_blocks = total_code_blocks,
                     me_total_links = total_links,
                     me_total_images = total_images,
                     me_avg_headings_per_doc = avg_headings,
                     me_avg_code_blocks_per_doc = avg_code_blocks \<rparr>,
                 gs_content_analysis =
                   \<lparr> ca_total_professional_terms =
                       sum_list (map (\<lambda>r. cs_professional_terms_count (content_stats r)) valid),
                     ca_total_numbers =
                       sum_list (map (\<lambda>r. cs_numbers_count (content_stats r)) valid),
                     ca_total_time_words =
                       sum_list (map (\<lambda>r. cs_time_words_count (content_stats r)) valid),
                     ca_avg_sentence_length = avg_len \<rparr> \<rparr>))))))"

text \<open>
  The ranking that the markdown \<^verbatim>\<open>generate_summary_report\<close> prints: the first fifteen
  of the valid results sorted by average density, descending.
\<close>

definition md_ranking :: "md_doc list \<Rightarrow> md_doc_record list" where
  "md_ranking results = take 15 (sorted_reverse average_density (valid_results results))"

section \<open>The paragraph splitter (\<^verbatim>\<open>process_content\<close>)\<close>

text \<open>
  The dictionary literal \<^verbatim>\<open>quote_pairs\<close> lists the pair of the double quote U+0022 three
  times and the pair of the single quote U+0027 three times.
\<close>

definition quote_pairs :: "uchar \<rightharpoonup> uchar" where
  "quote_pairs =
     map_of [(0x22, 0x22), (0x22, 0x22), (0x27, 0x27), (0x27, 0x27), (0x22, 0x22), (0x27, 0x27)]"

text \<open>The marks after which a paragraph break is set: U+3002, U+FF1F and U+FF01.\<close>

definition break_marks :: "uchar list" where
  "break_marks = [0x3002, 0xFF1F, 0xFF01]"

text \<open>
  The loop over the characters, with its state: \<^verbatim>\<open>in_quotes\<close>,
  \<^verbatim>\<open>current_quote_start\<close> and the characters appended to \<^verbatim>\<open>result\<close> so far.
\<close>

fun scan :: "ustring \<Rightarrow> bool \<Rightarrow> uchar option \<Rightarrow> ustring \<Rightarrow> ustring" where
  "scan [] in_quotes current_quote_start res = res"
| "scan (char # rest) in_quotes current_quote_start res =
     (if \<not> in_quotes \<and> quote_pairs char \<noteq> None then
        scan rest True (Some char) (res @ [char])
      else if in_quotes \<and>
              (case current_quote_start of
                 None \<Rightarrow> False
               | Some q \<Rightarrow> (case quote_pairs q of None \<Rightarrow> False | Some cl \<Rightarrow> char = cl)) then
        scan rest False None (res @ [char])
      else if char \<in> set break_marks then
        scan rest in_quotes current_quote_start
          (if \<not> in_quotes then res @ [char] @ [0x0A, 0x0A] else res @ [char])
      else
        scan rest in_quotes current_quote_start (res @ [char]))"

text \<open>
  \<^verbatim>\<open>re.sub(r'\n{3,}', r'\n\n', s)\<close>: a run of three or more line feeds becomes two.
\<close>

function collapse_newlines :: "ustring \<Rightarrow> ustring" where
  "collapse_newlines [] = []"
| "collapse_newlines (c # cs) =
     (if c = 0x0A \<and> length (takeWhile (\<lambda>x. x = 0x0A) (c # cs)) \<ge> 3 then
        [0x0A, 0x0A] @ collapse_newlines (dropWhile (\<lambda>x. x = 0x0A) cs)
      else c # collapse_newlines cs)"
  by pat_completeness auto
termination
  by (relation "measure length") (auto simp: less_Suc_eq_le length_dropWhile_le)

definition process_content :: "ustring \<Rightarrow> ustring" where
  "process_content content = collapse_newlines (scan content False None [])"

text \<open>
  The state of the loop (\<^verbatim>\<open>in_quotes\<close>, \<^verbatim>\<open>current_quote_start\<close>) after the characters of a
  prefix of the content: the same case distinction as in \<open>scan\<close>, without the result.
\<close>

fun scan_state :: "ustring \<Rightarrow> bool \<Rightarrow> uchar option \<Rightarrow> bool \<times> uchar option" where
  "scan_state [] in_quotes current_quote_start = (in_quotes, current_quote_start)"
| "scan_state (char # rest) in_quotes current_quote_start =
     (if \<not> in_quotes \<and> quote_pairs char \<noteq> None then scan_state rest True (Some char)
      else if in_quotes \<and>
              (case current_quote_start of
                 None \<Rightarrow> False
               | Some q \<Rightarrow> (case quote_pairs q of None \<Rightarrow> False | Some cl \<Rightarrow> char = cl)) then
        scan_state rest False None
      else scan_state rest in_quotes current_quote_start)"

section \<open>A sample environment and sample inputs\<close>

text \<open>
  The theorems below hold for every environment. To evaluate the analyzers on concrete
  texts, a sample environment is fixed here: the tokenizer cuts at spaces, white space is
  the ASCII white space with U+0085, U+00A0 and U+3000, digits are the ASCII digits, and
  letters are the ASCII letters and the CJK block.
\<close>

definition py_isspace :: "uchar \<Rightarrow> bool" where
  "py_isspace c =
     ((0x09 \<le> c \<and> c \<le> 0x0D) \<or> (0x1C \<le> c \<and> c \<le> 0x20) \<or> c = 0x85 \<or> c = 0xA0 \<or> c = 0x3000)"

definition space_lcut :: "ustring \<Rightarrow> ustring list" where
  "space_lcut s = filter (\<lambda>w. w \<noteq> []) (re_split (\<lambda>c. c = 0x20) s)"

definition demo_env :: env where
  "demo_env =
     \<lparr> lcut = space_lcut,
       isspace = py_isspace,
       isdigit = (\<lambda>c. 0x30 \<le> c \<and> c \<le> 0x39),
       isalpha = (\<lambda>c. (0x41 \<le> c \<and> c \<le> 0x5A) \<or> (0x61 \<le> c \<and> c \<le> 0x7A) \<or> (0x4E00 \<le> c \<and> c \<le> 0x9FFF)),
       isword = (\<lambda>c. (0x30 \<le> c \<and> c \<le> 0x39) \<or> (0x41 \<le> c \<and> c \<le> 0x5A) \<or> c = 0x5F \<or>
                      (0x61 \<le> c \<and> c \<le> 0x7A) \<or> (0x4E00 \<le> c \<and> c \<le> 0x9FFF)) \<rparr>"

text \<open>
  Sample sentences: a sentence on this day's sales with the number 15, two words without
  any scored feature, one and two professional terms, and a word with an underscore.
\<close>

definition ex_sales :: ustring where
  "ex_sales = [0x4ECA, 0x5929, 0x7684, 0x9500, 0x552E, 0x989D, 0x589E, 0x957F, 0x4E86, 0x31, 0x35, 0x25]"

definition ex_heading :: sentence_context where
  "ex_heading = \<lparr> is_heading = True, is_list_item = False, is_blockquote = False, heading_level = 1 \<rparr>"

definition ex_plain :: ustring where
  "ex_plain = [0x7532, 0x4E59, 0x20, 0x4E19, 0x4E01]"



definition ex_underscore :: ustring where
  "ex_underscore = [0x7532, 0x4E59, 0x20, 0x4E19, 0x5F]"

text \<open>
  The quoted question of the splitter's own test, up to its question mark U+FF1F, the
  rest of the text up to its last mark, and the whole text when it ends in three ASCII
  full stops.
\<close>

definition ex_quote_open :: ustring where
  "ex_quote_open = [0x22, 0x53, 0x55, 0x37, 0x771F, 0x80FD, 0x628A, 0x42, 0x42, 0x41, 0x6309,
     0x5730, 0x4E0A, 0x6469, 0x64E6]"

definition ex_quote_rest :: ustring where
  "ex_quote_rest = [0x22, 0x20, 0x63A5, 0x4E0B, 0x6765]"

definition ex_quote_dots :: ustring where
  "ex_quote_dots = [0x22, 0x53, 0x55, 0x37, 0x771F, 0x80FD, 0x628A, 0x42, 0x42, 0x41, 0x6309,
     0x5730, 0x4E0A, 0x6469, 0x64E6, 0xFF1F, 0x22, 0x20, 0x63A5, 0x4E0B, 0x6765, 0x2E, 0x2E, 0x2E]"

text \<open>
  A sample document of two sentences, a context without any flag, empty structural
  statistics, and sample environments for the two batch functions: three files, of which
  the second cannot be read.
\<close>

definition ex_doc_text :: ustring where
  "ex_doc_text = [0x4ECA, 0x5929, 0x7684, 0x9500, 0x552E, 0x989D, 0x589E, 0x957F, 0x4E86, 0x31,
     0x35, 0x25, 0x3002, 0x7532, 0x4E59, 0x20, 0x4E19, 0x4E01, 0x20, 0x620A, 0x5DF1, 0x3002]"

definition no_context :: sentence_context where
  "no_context = \<lparr> is_heading = False, is_list_item = False, is_blockquote = False, heading_level = 0 \<rparr>"

definition empty_markdown_stats :: markdown_stats where
  "empty_markdown_stats =
     \<lparr> ms_headings_count = 0, ms_heading_levels = [], ms_code_blocks_count = 0,
       ms_inline_codes_count = 0, ms_links_count = 0, ms_images_count = 0,
       ms_list_items_count = 0, ms_blockquotes_count = 0, ms_tables_count = 0,
       ms_emphasis_count = 0, ms_total_lines = 0, ms_empty_lines = 0, ms_content_lines = 0,
       ms_structure_ratio = 0, ms_code_density = 0 \<rparr>"

definition demo_md_env :: "unit md_env" where
  "demo_md_env =
     \<lparr> lcut = lcut demo_env, isspace = isspace demo_env, isdigit = isdigit demo_env,
       isalpha = isalpha demo_env, isword = isword demo_env,
       clean_markdown_text = (\<lambda>c. c),
       get_sentence_context = (\<lambda>s c. no_context),
       calculate_markdown_stats = (\<lambda>c. empty_markdown_stats),
       relpath = (\<lambda>p d. p),
       parse_markdown_file =
         (\<lambda>p. if p = [0x62] then (None, (), Some [0x65, 0x72, 0x72])
              else if p = [0x63] then (Some [0x7532, 0x4E59, 0x20, 0x67B6, 0x6784, 0x20, 0x620A, 0x5DF1, 0x3002], (), None)
              else (Some ex_doc_text, (), None)) \<rparr>"


section \<open>The two outcomes of a file in a batch\<close>





section \<open>Sample document records\<close>

text \<open>Sample document records with a given name, number of sentences and average density.\<close>

definition ex_record :: "ustring \<Rightarrow> nat \<Rightarrow> real \<Rightarrow> (sentence_result, content_stats) doc_record" where
  "ex_record name n dens =
     \<lparr> filename = name, total_sentences = n, doc_total_chars = 10 * n,
       average_density = dens, high_quality_ratio = 0,
       quality_distribution = \<lparr> qd_high = 0, qd_medium = 0, qd_low = n \<rparr>,
       content_stats =
         \<lparr> cs_numbers_count = 0, cs_time_words_count = 0, cs_avg_sentence_length = 10 \<rparr>,
       sentences = [] \<rparr>"

definition ex_md_record :: "ustring \<Rightarrow> nat \<Rightarrow> real \<Rightarrow> md_doc_record" where
  "ex_md_record name n dens =
     \<lparr> filename = name, total_sentences = n, doc_total_chars = 10 * n,
       average_density = dens, high_quality_ratio = 0,
       quality_distribution = \<lparr> qd_high = 0, qd_medium = 0, qd_low = n \<rparr>,
       content_stats =
         \<lparr> cs_numbers_count = 0, cs_time_words_count = 0, cs_avg_sentence_length = 10,
           cs_professional_terms_count = 0, cs_code_snippets_count = 0, cs_links_count = 0 \<rparr>,
       sentences = [],
       markdown_stats = empty_markdown_stats \<rparr>"

section \<open>Auxiliary facts\<close>

lemmas demo_defs = demo_env_def space_lcut_def py_isspace_def
lemmas eval_defs = analyze_sentence_def md_analyze_sentence_def strip_def replace_spaces_def count_where_def
  match_number_def match_inline_code_def match_link_def str_isalpha_def Let_def q_high_def q_medium_def q_low_def
  PDFInfoDensityAnalyzer_def MarkdownInfoDensityAnalyzer_def

lemma q_distinct: "q_high \<noteq> q_medium" "q_high \<noteq> q_low" "q_medium \<noteq> q_low"
  by (simp_all add: q_high_def q_medium_def q_low_def)

lemma pdf_some_case:
  "(case analyze_sentence E self s of
      None \<Rightarrow> True
    | Some r \<Rightarrow>
        0 < total_chars r \<and>
        info_score r =
           real (numbers r) * number (weights self) +
           real (time_words r) * time (weights self) +
           real (professional_terms r) * professional (weights self) +
           real (conjunctions r) * conjunction (weights self) +
           real (modifiers r) * modifier (weights self) \<and>
        density r = info_score r / real (total_chars r) \<and>
        quality r = (if density r > 0.15 then q_high else if density r > 0.08 then q_medium else q_low) \<and>
        entities r = count_where (\<lambda>w. length w > 1 \<and> str_isalpha E w) (lcut E s))"
proof (cases "strip E s = []")
  case True
  then show ?thesis by (simp add: analyze_sentence_def)
next
  case ne: False
  show ?thesis
  proof (cases "length (replace_spaces s) = 0")
    case True
    with ne show ?thesis by (simp add: analyze_sentence_def Let_def)
  next
    case False
    with ne show ?thesis by (simp add: analyze_sentence_def Let_def split del: if_split cong: if_cong)
  qed
qed

lemma pdf_some:
  assumes "analyze_sentence E self s = Some r"
  shows "0 < total_chars r"
    and "info_score r =
           real (numbers r) * number (weights self) +
           real (time_words r) * time (weights self) +
           real (professional_terms r) * professional (weights self) +
           real (conjunctions r) * conjunction (weights self) +
           real (modifiers r) * modifier (weights self)"
    and "density r = info_score r / real (total_chars r)"
    and "quality r = (if density r > 0.15 then q_high else if density r > 0.08 then q_medium else q_low)"
    and "entities r = count_where (\<lambda>w. length w > 1 \<and> str_isalpha E w) (lcut E s)"
  using pdf_some_case [where E = E and self = self and s = s] assms by simp_all

lemma md_some_case:
  "(case md_analyze_sentence E self s cx of
      None \<Rightarrow> True
    | Some r \<Rightarrow>
        0 < total_chars r \<and>
        info_score r =
           real (numbers r) * number (weights self) +
           real (time_words r) * time (weights self) +
           real (professional_terms r) * professional (weights self) +
           real (conjunctions r) * conjunction (weights self) +
           real (modifiers r) * modifier (weights self) +
           real (code_snippets r) * code (weights self) +
           real (links r) * link (weights self) +
           (case ctx r of
              None \<Rightarrow> 0
            | Some c \<Rightarrow>
                (if is_heading c then heading (weights self) else 0) +
                (if is_list_item c then list_item (weights self) else 0)) \<and>
        density r = info_score r / real (total_chars r) \<and>
        quality r = (if density r > 0.12 then q_high else if density r > 0.06 then q_medium else q_low) \<and>
        entities r = count_where (\<lambda>w. length w > 1 \<and> str_isalpha E w) (lcut E s) \<and>
        ctx r = cx)"
proof (cases "strip E s = []")
  case True
  then show ?thesis by (simp add: md_analyze_sentence_def)
next
  case ne: False
  show ?thesis
  proof (cases "length (replace_spaces s) = 0")
    case True
    with ne show ?thesis by (simp add: md_analyze_sentence_def Let_def)
  next
    case False
    with ne show ?thesis by (simp add: md_analyze_sentence_def Let_def split del: if_split cong: if_cong)
  qed
qed

lemma md_some:
  assumes "md_analyze_sentence E self s cx = Some r"
  shows "0 < total_chars r"
    and "info_score r =
           real (numbers r) * number (weights self) +
           real (time_words r) * time (weights self) +
           real (professional_terms r) * professional (weights self) +
           real (conjunctions r) * conjunction (weights self) +
           real (modifiers r) * modifier (weights self) +
           real (code_snippets r) * code (weights self) +
           real (links r) * link (weights self) +
           (case ctx r of
              None \<Rightarrow> 0
            | Some c \<Rightarrow>
                (if is_heading c then heading (weights self) else 0) +
                (if is_list_item c then list_item (weights self) else 0))"
    and "density r = info_score r / real (total_chars r)"
    and "quality r = (if density r > 0.12 then q_high else if density r > 0.06 then q_medium else q_low)"
    and "entities r = count_where (\<lambda>w. length w > 1 \<and> str_isalpha E w) (lcut E s)"
    and "ctx r = cx"
  using md_some_case [where E = E and self = self and s = s and cx = cx] assms by simp_all

lemma md_blockquote_irrelevant:
  "map_option info_score (md_analyze_sentence E self s (Some (c\<lparr>is_blockquote := b\<rparr>))) =
   map_option info_score (md_analyze_sentence E self s (Some c))"
  by (simp add: md_analyze_sentence_def Let_def cong: if_cong)

lemma pdf_weights_irrelevant:
  "analyze_sentence E (self\<lparr>weights := (weights self)\<lparr>entity := x, verb := y\<rparr>\<rparr>) s =
   analyze_sentence E self s"
  by (simp add: analyze_sentence_def Let_def split del: if_split cong: if_cong)

lemma md_weights_irrelevant:
  "md_analyze_sentence E (self\<lparr>weights := (weights self)\<lparr>entity := x, verb := y\<rparr>\<rparr>) s cx =
   md_analyze_sentence E self s cx"
  by (cases cx) (simp_all add: md_analyze_sentence_def Let_def split del: if_split cong: if_cong)

lemma ex_sales_md: "\<exists>r. md_analyze_sentence demo_env MarkdownInfoDensityAnalyzer ex_sales (Some ex_heading) = Some r \<and> numbers r = 1 \<and> time_words r = 1
   \<and> professional_terms r = 0 \<and> conjunctions r = 0 \<and> modifiers r = 0 \<and> code_snippets r = 0 \<and> links r = 0 \<and> total_chars r = 12"
  by (simp add: eval_defs demo_defs ex_sales_def ex_heading_def)

lemma re_split_Nil: "re_split sep [] = [[]]"
  by simp

lemma ex_plain_pdf: "\<exists>r. analyze_sentence demo_env PDFInfoDensityAnalyzer ex_plain = Some r \<and> numbers r = 0 \<and> time_words r = 0
   \<and> professional_terms r = 0 \<and> conjunctions r = 0 \<and> modifiers r = 0 \<and> total_chars r = 4 \<and> entities r = 2"
  by (simp add: eval_defs demo_defs ex_plain_def)

lemma ex_sales_pdf: "\<exists>r. analyze_sentence demo_env PDFInfoDensityAnalyzer ex_sales = Some r \<and> numbers r = 1 \<and> time_words r = 1
   \<and> density r = 11 / 24 \<and> professional_terms r = 0 \<and> conjunctions r = 0 \<and> modifiers r = 0 \<and> total_chars r = 12"
  by (simp add: eval_defs demo_defs ex_sales_def)


lemma ex_plain_md: "\<exists>r. md_analyze_sentence demo_env MarkdownInfoDensityAnalyzer ex_plain None = Some r \<and> numbers r = 0 \<and> time_words r = 0
   \<and> professional_terms r = 0 \<and> conjunctions r = 0 \<and> modifiers r = 0 \<and> code_snippets r = 0 \<and> links r = 0 \<and> total_chars r = 4 \<and> entities r = 2"
  by (simp add: eval_defs demo_defs ex_plain_def)





lemma ex_underscore_pdf:
  "\<exists>r. analyze_sentence demo_env PDFInfoDensityAnalyzer ex_underscore = Some r \<and> numbers r = 0 \<and>
       time_words r = 0 \<and> professional_terms r = 0 \<and> conjunctions r = 0 \<and> modifiers r = 0 \<and>
       total_chars r = 4 \<and> entities r = 1"
  by (simp add: eval_defs demo_defs ex_underscore_def)

lemma ex_underscore_md:
  "\<exists>r. md_analyze_sentence demo_env MarkdownInfoDensityAnalyzer ex_underscore None = Some r \<and>
       numbers r = 0 \<and> time_words r = 0 \<and> professional_terms r = 0 \<and> conjunctions r = 0 \<and>
       modifiers r = 0 \<and> code_snippets r = 0 \<and> links r = 0 \<and> total_chars r = 4 \<and> entities r = 1"
  by (simp add: eval_defs demo_defs ex_underscore_def)


lemma scan_acc: "scan xs q c res = res @ scan xs q c []"
proof (induction xs arbitrary: q c res)
  case Nil
  show ?case by simp
next
  case (Cons ch rest)
  have a: "scan rest q' c' (res @ r) = res @ scan rest q' c' r" for q' c' r
  proof -
    have "scan rest q' c' (res @ r) = (res @ r) @ scan rest q' c' []"
      by (rule Cons.IH)
    also have "\<dots> = res @ (r @ scan rest q' c' [])"
      by simp
    also have "r @ scan rest q' c' [] = scan rest q' c' r"
      by (rule Cons.IH [symmetric])
    finally show ?thesis .
  qed
  show ?case
    by (simp add: a)
qed

lemma scan_append:
  "scan (xs @ ys) q c res =
     scan ys (fst (scan_state xs q c)) (snd (scan_state xs q c)) (scan xs q c res)"
  by (induction xs arbitrary: q c res) simp_all

lemma quote_pairs_simps:
  "quote_pairs ch \<noteq> None \<longleftrightarrow> ch = 0x22 \<or> ch = 0x27"
  "quote_pairs 0x22 = Some 0x22" "quote_pairs 0x27 = Some 0x27"
  by (simp_all add: quote_pairs_def)

lemma break_mark_not_quote:
  assumes "m \<in> set break_marks"
  shows "quote_pairs m = None" and "m \<noteq> 0x22" and "m \<noteq> 0x27" and "m \<noteq> 0x0A"
  using assms by (auto simp: break_marks_def quote_pairs_def)

lemma scan_mark:
  assumes m: "m \<in> set break_marks"
  shows "scan (m # post) q c res =
           scan post q c (if q then res @ [m] else res @ [m, 0x0A, 0x0A])"
proof -
  have 1: "quote_pairs m = None"
    using m by (rule break_mark_not_quote)
  have 2: "\<not> (case c of None \<Rightarrow> False
             | Some k \<Rightarrow> (case quote_pairs k of None \<Rightarrow> False | Some cl \<Rightarrow> m = cl))"
    using m by (auto simp: break_marks_def quote_pairs_def split: option.splits if_splits)
  show ?thesis
    using m 1 2 by simp
qed

lemma takeWhile_stop: "\<not> P c \<Longrightarrow> takeWhile P (xs @ c # ys) = takeWhile P xs"
  by (induction xs) auto

lemma dropWhile_stop: "\<not> P c \<Longrightarrow> dropWhile P (xs @ c # ys) = dropWhile P xs @ c # ys"
  by (induction xs) auto

lemma collapse_long:
  "2 \<le> length (takeWhile (\<lambda>x. x = 0x0A) xs) \<Longrightarrow>
   collapse_newlines (0x0A # xs) =
     0x0A # 0x0A # collapse_newlines (dropWhile (\<lambda>x. x = 0x0A) xs)"
  by simp

lemma collapse_short:
  "\<not> (x = 0x0A \<and> 2 \<le> length (takeWhile (\<lambda>x. x = 0x0A) xs)) \<Longrightarrow>
   collapse_newlines (x # xs) = x # collapse_newlines xs"
  by auto

lemma collapse_split:
  "c \<noteq> 0x0A \<Longrightarrow> collapse_newlines (xs @ c # ys) = collapse_newlines xs @ c # collapse_newlines ys"
proof (induction xs rule: collapse_newlines.induct)
  case 1
  then show ?case by simp
next
  case (2 x xs)
  let ?P = "\<lambda>x::nat. x = 0x0A"
  have tw: "takeWhile ?P (xs @ c # ys) = takeWhile ?P xs"
    using "2.prems" by (simp add: takeWhile_stop)
  have dw: "dropWhile ?P (xs @ c # ys) = dropWhile ?P xs @ c # ys"
    using "2.prems" by (simp add: dropWhile_stop)
  show ?case
  proof (cases "x = 0x0A \<and> 2 \<le> length (takeWhile ?P xs)")
    case True
    then have x: "x = 0x0A" and len: "2 \<le> length (takeWhile ?P xs)"
      by simp_all
    have pre: "x = 0x0A \<and> 3 \<le> length (takeWhile ?P (x # xs))"
      using x len by simp
    have ih: "collapse_newlines (dropWhile ?P xs @ c # ys) =
        collapse_newlines (dropWhile ?P xs) @ c # collapse_newlines ys"
      using pre "2.prems" by (rule "2.IH"(1))
    have "collapse_newlines ((x # xs) @ c # ys) = collapse_newlines (0x0A # (xs @ c # ys))"
      using x by simp
    also have "\<dots> = 0x0A # 0x0A # collapse_newlines (dropWhile ?P (xs @ c # ys))"
      using len tw by (intro collapse_long) simp
    also have "\<dots> = 0x0A # 0x0A # collapse_newlines (dropWhile ?P xs) @ c # collapse_newlines ys"
      using ih dw by simp
    finally have l: "collapse_newlines ((x # xs) @ c # ys) =
        0x0A # 0x0A # collapse_newlines (dropWhile ?P xs) @ c # collapse_newlines ys" .
    have r: "collapse_newlines (x # xs) = 0x0A # 0x0A # collapse_newlines (dropWhile ?P xs)"
      unfolding x using len by (rule collapse_long)
    show ?thesis
      unfolding l r by simp
  next
    case False
    have pre: "\<not> (x = 0x0A \<and> 3 \<le> length (takeWhile ?P (x # xs)))"
      using False by auto
    have ih: "collapse_newlines (xs @ c # ys) = collapse_newlines xs @ c # collapse_newlines ys"
      using pre "2.prems" by (rule "2.IH"(2))
    have "collapse_newlines ((x # xs) @ c # ys) = collapse_newlines (x # (xs @ c # ys))"
      by simp
    also have "\<dots> = x # collapse_newlines (xs @ c # ys)"
      using False tw by (intro collapse_short) simp
    also have "\<dots> = x # collapse_newlines xs @ c # collapse_newlines ys"
      using ih by simp
    finally have l: "collapse_newlines ((x # xs) @ c # ys) =
        x # collapse_newlines xs @ c # collapse_newlines ys" .
    have r: "collapse_newlines (x # xs) = x # collapse_newlines xs"
      using False by (rule collapse_short)
    show ?thesis
      unfolding l r by simp
  qed
qed

lemma collapse_two:
  "collapse_newlines (0x0A # 0x0A # ys) =
     0x0A # 0x0A # collapse_newlines (dropWhile (\<lambda>x. x = 0x0A) ys)"
proof (cases ys)
  case Nil
  then show ?thesis by simp
next
  case (Cons y ys')
  then show ?thesis by (cases "y = 0x0A") simp_all
qed

lemma scan_ascii_mark:
  assumes a: "a = 0x2E \<or> a = 0x21 \<or> a = 0x3F"
  shows "scan (a # post) q c res = scan post q c (res @ [a])"
proof -
  have 1: "quote_pairs a = None"
    using a by (auto simp: quote_pairs_def)
  have 2: "\<not> (case c of None \<Rightarrow> False
             | Some k \<Rightarrow> (case quote_pairs k of None \<Rightarrow> False | Some cl \<Rightarrow> a = cl))"
    using a by (auto simp: quote_pairs_def split: option.splits if_splits)
  have 3: "a \<notin> set break_marks"
    using a by (auto simp: break_marks_def)
  show ?thesis
    using 1 2 3 by simp
qed

lemma scan_state_ascii_mark:
  assumes a: "a = 0x2E \<or> a = 0x21 \<or> a = 0x3F"
  shows "scan_state (pre @ [a]) q c = scan_state pre q c"
proof (induction pre arbitrary: q c)
  case Nil
  have 1: "quote_pairs a = None"
    using a by (auto simp: quote_pairs_def)
  have 2: "\<not> (case c of None \<Rightarrow> False
             | Some k \<Rightarrow> (case quote_pairs k of None \<Rightarrow> False | Some cl \<Rightarrow> a = cl))"
    using a by (auto simp: quote_pairs_def split: option.splits if_splits)
  show ?case
    using 1 2 by simp
next
  case (Cons x pre)
  then show ?case by simp
qed

lemma process_content_break_mark:
  assumes "m \<in> set break_marks"
  shows "process_content (pre @ m # post) =
     collapse_newlines (scan pre False None []) @ m #
       (let q = fst (scan_state pre False None); c = snd (scan_state pre False None) in
        if q then collapse_newlines (scan post q c [])
        else 0x0A # 0x0A # collapse_newlines (dropWhile (\<lambda>x. x = 0x0A) (scan post q c [])))"
proof -
  define q where "q = fst (scan_state pre False None)"
  define c where "c = snd (scan_state pre False None)"
  have mnl: "m \<noteq> 0x0A"
    using assms by (rule break_mark_not_quote)
  have "scan (pre @ m # post) False None [] = scan (m # post) q c (scan pre False None [])"
    unfolding q_def c_def by (rule scan_append)
  also have "\<dots> = scan post q c
      (if q then scan pre False None [] @ [m] else scan pre False None [] @ [m, 0x0A, 0x0A])"
    using assms by (rule scan_mark)
  also have "\<dots> = (if q then scan pre False None [] @ [m] else scan pre False None [] @ [m, 0x0A, 0x0A])
      @ scan post q c []"
    by (rule scan_acc)
  finally have raw: "scan (pre @ m # post) False None [] =
      scan pre False None [] @ m # (if q then [] else [0x0A, 0x0A]) @ scan post q c []"
    by simp
  have "collapse_newlines (scan (pre @ m # post) False None []) =
      collapse_newlines (scan pre False None []) @ m #
        collapse_newlines ((if q then [] else [0x0A, 0x0A]) @ scan post q c [])"
    unfolding raw using mnl by (rule collapse_split)
  also have "collapse_newlines ((if q then [] else [0x0A, 0x0A]) @ scan post q c []) =
      (if q then collapse_newlines (scan post q c [])
       else 0x0A # 0x0A # collapse_newlines (dropWhile (\<lambda>x. x = 0x0A) (scan post q c [])))"
    using collapse_two [of "scan post q c []"] by (cases q) (simp_all del: collapse_newlines.simps)
  finally show ?thesis
    unfolding process_content_def Let_def q_def [symmetric] c_def [symmetric] .
qed

lemma process_content_ascii_mark:
  assumes a: "a = 0x2E \<or> a = 0x21 \<or> a = 0x3F"
  shows "process_content (pre @ a # post) =
     collapse_newlines (scan pre False None []) @ a #
       collapse_newlines
         (scan post (fst (scan_state pre False None)) (snd (scan_state pre False None)) [])"
proof -
  define q where "q = fst (scan_state pre False None)"
  define c where "c = snd (scan_state pre False None)"
  have anl: "a \<noteq> 0x0A"
    using a by auto
  have "scan (pre @ a # post) False None [] = scan (a # post) q c (scan pre False None [])"
    unfolding q_def c_def by (rule scan_append)
  also have "\<dots> = scan post q c (scan pre False None [] @ [a])"
    using a by (rule scan_ascii_mark)
  also have "\<dots> = (scan pre False None [] @ [a]) @ scan post q c []"
    by (rule scan_acc)
  finally have raw: "scan (pre @ a # post) False None [] =
      scan pre False None [] @ a # scan post q c []"
    by simp
  show ?thesis
    unfolding process_content_def raw q_def [symmetric] c_def [symmetric]
    using anl by (rule collapse_split)
qed

lemma analyze_text_cases:
  "let rs = List.map_filter (analyze_sentence E self) (split_sentences E body) in
         (\<exists>msg. analyze_text E self body fname = Inr (error_doc fname msg) \<and>
            (body = [] \<or> split_sentences E body = [] \<or> rs = [])) \<or>
         (rs \<noteq> [] \<and> split_sentences E body \<noteq> [] \<and> body \<noteq> [] \<and>
          analyze_text E self body fname =
            Inr (Valid_doc
              \<lparr> filename = fname,
                total_sentences = length rs,
                doc_total_chars = sum_list (map total_chars rs),
                average_density = sum_list (map density rs) / real (length rs),
                high_quality_ratio =
                  real (count_where (\<lambda>r. quality r = q_high) rs) / real (length rs),
                quality_distribution =
                  \<lparr> qd_high = count_where (\<lambda>r. quality r = q_high) rs,
                    qd_medium = count_where (\<lambda>r. quality r = q_medium) rs,
                    qd_low = count_where (\<lambda>r. quality r = q_low) rs \<rparr>,
                content_stats =
                  \<lparr> cs_numbers_count = sum_list (map numbers rs),
                    cs_time_words_count = sum_list (map time_words rs),
                    cs_avg_sentence_length =
                      real (sum_list (map total_chars rs)) / real (length rs) \<rparr>,
                sentences = take 10 rs \<rparr>))"
  by (auto simp: analyze_text_def py_div_def Let_def)

lemma md_content_cases:
  "let rs = List.map_filter
      (\<lambda>s. md_analyze_sentence E self s (Some (get_sentence_context E s (the content_opt))))
      (md_split_sentences E (clean_markdown_text E (the content_opt))) in
         (\<exists>msg ms. analyze_markdown_content E self content_opt fname = Inr (md_error_doc fname msg ms)) \<or>
         (rs \<noteq> [] \<and> (\<exists>c. content_opt = Some c \<and> c \<noteq> []) \<and>
          analyze_markdown_content E self content_opt fname =
            Inr (Valid_doc
              \<lparr> filename = fname,
                total_sentences = length rs,
                doc_total_chars = sum_list (map total_chars rs),
                average_density = sum_list (map density rs) / real (length rs),
                high_quality_ratio =
                  real (count_where (\<lambda>r. quality r = q_high) rs) / real (length rs),
                quality_distribution =
                  \<lparr> qd_high = count_where (\<lambda>r. quality r = q_high) rs,
                    qd_medium = count_where (\<lambda>r. quality r = q_medium) rs,
                    qd_low = count_where (\<lambda>r. quality r = q_low) rs \<rparr>,
                content_stats =
                  \<lparr> cs_numbers_count = sum_list (map numbers rs),
                    cs_time_words_count = sum_list (map time_words rs),
                    cs_avg_sentence_length =
                      real (sum_list (map total_chars rs)) / real (length rs),
                    cs_professional_terms_count = sum_list (map professional_terms rs),
                    cs_code_snippets_count = sum_list (map code_snippets rs),
                    cs_links_count = sum_list (map links rs) \<rparr>,
                sentences = take 15 rs,
                markdown_stats = calculate_markdown_stats E (the content_opt) \<rparr>))"
proof (cases content_opt)
  case None
  then show ?thesis by (auto simp: analyze_markdown_content_def Let_def)
next
  case (Some c)
  then show ?thesis
    by (auto simp: analyze_markdown_content_def py_div_def Let_def)
qed

lemma quality_counts:
  assumes "\<forall>r \<in> set rs. quality r = q_high \<or> quality r = q_medium \<or> quality r = q_low"
  shows "count_where (\<lambda>r. quality r = q_high) rs + count_where (\<lambda>r. quality r = q_medium) rs +
         count_where (\<lambda>r. quality r = q_low) rs = length rs"
  using assms
proof (induction rs)
  case Nil
  then show ?case by (simp add: count_where_def)
next
  case (Cons r rs)
  then show ?case
    using q_distinct by (auto simp: count_where_def)
qed

lemma pdf_quality_range:
  assumes "analyze_sentence E self s = Some r"
  shows "quality r = q_high \<or> quality r = q_medium \<or> quality r = q_low"
  using pdf_some(4) [OF assms] by (simp split: if_splits)

lemma md_quality_range:
  assumes "md_analyze_sentence E self s cx = Some r"
  shows "quality r = q_high \<or> quality r = q_medium \<or> quality r = q_low"
  using md_some(4) [OF assms] by (simp split: if_splits)

lemma map_filter_range:
  assumes "\<And>x y. f x = Some y \<Longrightarrow> P y"
  shows "\<forall>y \<in> set (List.map_filter f xs). P y"
  using assms by (auto simp: List.map_filter_def)

lemma ex_doc_pdf:
  "\<exists>d. analyze_text demo_env PDFInfoDensityAnalyzer ex_doc_text [0x61] = Inr (Valid_doc d) \<and>
       total_sentences d = 2 \<and> quality_distribution d = \<lparr> qd_high = 1, qd_medium = 0, qd_low = 1 \<rparr> \<and>
       high_quality_ratio d = 1 / 2 \<and> average_density d = 11 / 48"
  by (simp add: analyze_text_def split_sentences_def sentence_sep_def py_div_def
      List.map_filter_def eval_defs demo_defs ex_doc_text_def)

lemma ex_doc_md:
  "\<exists>d. analyze_markdown_content demo_md_env MarkdownInfoDensityAnalyzer (Some ex_doc_text) [0x61] =
         Inr (Valid_doc d) \<and>
       total_sentences d = 2 \<and> quality_distribution d = \<lparr> qd_high = 1, qd_medium = 0, qd_low = 1 \<rparr> \<and>
       high_quality_ratio d = 1 / 2 \<and> average_density d = 11 / 48"
  by (simp add: analyze_markdown_content_def md_split_sentences_def sentence_sep_def py_div_def
      List.map_filter_def eval_defs demo_defs demo_md_env_def no_context_def ex_doc_text_def)

lemma analyze_text_valid:
  assumes "analyze_text E self body fname = Inr (Valid_doc d)"
  shows "\<exists>rs. rs = List.map_filter (analyze_sentence E self) (split_sentences E body) \<and>
           rs \<noteq> [] \<and> total_sentences d = length rs \<and>
           average_density d = sum_list (map density rs) / real (length rs) \<and>
           high_quality_ratio d =
             real (count_where (\<lambda>r. quality r = q_high) rs) / real (length rs) \<and>
           quality_distribution d =
             \<lparr> qd_high = count_where (\<lambda>r. quality r = q_high) rs,
               qd_medium = count_where (\<lambda>r. quality r = q_medium) rs,
               qd_low = count_where (\<lambda>r. quality r = q_low) rs \<rparr>"
  using analyze_text_cases [where E = E and self = self and body = body and fname = fname] assms
  by (auto simp: Let_def error_doc_def)

lemma analyze_text_error:
  assumes "analyze_text E self body fname = Inr (Error_doc e)"
  shows "err_total_sentences e = 0 \<and> err_high_quality_ratio e = 0 \<and> err_average_density e = 0 \<and>
         err_sentences e = []"
  using analyze_text_cases [where E = E and self = self and body = body and fname = fname] assms
  by (auto simp: Let_def error_doc_def)

lemma analyze_text_total: "\<exists>d. analyze_text E self body fname = Inr d"
  using analyze_text_cases [where E = E and self = self and body = body and fname = fname]
  by (auto simp: Let_def)

lemma md_content_valid:
  assumes "analyze_markdown_content E self content_opt fname = Inr (Valid_doc d)"
  shows "\<exists>rs c. content_opt = Some c \<and>
           rs = List.map_filter
                  (\<lambda>s. md_analyze_sentence E self s (Some (get_sentence_context E s c)))
                  (md_split_sentences E (clean_markdown_text E c)) \<and>
           rs \<noteq> [] \<and> total_sentences d = length rs \<and>
           average_density d = sum_list (map density rs) / real (length rs) \<and>
           high_quality_ratio d =
             real (count_where (\<lambda>r. quality r = q_high) rs) / real (length rs) \<and>
           quality_distribution d =
             \<lparr> qd_high = count_where (\<lambda>r. quality r = q_high) rs,
               qd_medium = count_where (\<lambda>r. quality r = q_medium) rs,
               qd_low = count_where (\<lambda>r. quality r = q_low) rs \<rparr>"
  using md_content_cases [where E = E and self = self and content_opt = content_opt and fname = fname]
    assms
  by (auto simp: Let_def md_error_doc_def)

lemma md_content_error:
  assumes "analyze_markdown_content E self content_opt fname = Inr (Error_doc e)"
  shows "err_total_sentences e = 0 \<and> err_high_quality_ratio e = 0 \<and> err_average_density e = 0 \<and>
         err_sentences e = []"
  using md_content_cases [where E = E and self = self and content_opt = content_opt and fname = fname]
    assms
  by (auto simp: Let_def md_error_doc_def)

lemma md_content_total: "\<exists>d. analyze_markdown_content E self content_opt fname = Inr d"
  using md_content_cases [where E = E and self = self and content_opt = content_opt and fname = fname]
  by (auto simp: Let_def)

lemma keep_filter:
  "map f (filter (\<lambda>s. f s \<noteq> [] \<and> n < length (f s)) xs) =
   filter (\<lambda>t. Suc n \<le> length t) (map f xs)"
  by (induction xs) auto



lemma generate_summary_report_eq:
  "generate_summary_report results failed_files =
     Inr \<lparr> sum_total_files = length results + length failed_files,
           sum_successful = length (valid_results results),
           sum_failed = length failed_files,
           sum_overall =
             (if valid_results results = [] then None
              else Some
                \<lparr> ov_total_sentences = sum_list (map total_sentences (valid_results results)),
                  ov_total_chars = sum_list (map doc_total_chars (valid_results results)),
                  ov_avg_density =
                    sum_list (map average_density (valid_results results)) /
                    real (length (valid_results results)),
                  ov_high_quality_sentences =
                    sum_list (map (\<lambda>r. qd_high (quality_distribution r)) (valid_results results)),
                  ov_high_quality_ratio =
                    (if sum_list (map total_sentences (valid_results results)) > 0
                     then real (sum_list (map (\<lambda>r. qd_high (quality_distribution r))
                                 (valid_results results))) /
                          real (sum_list (map total_sentences (valid_results results)))
                     else 0),
                  ov_ranking = take 10 (sorted_reverse average_density (valid_results results)),
                  ov_quality_totals =
                    \<lparr> qd_high = sum_list (map (\<lambda>r. qd_high (quality_distribution r))
                                  (valid_results results)),
                      qd_medium = sum_list (map (\<lambda>r. qd_medium (quality_distribution r))
                                    (valid_results results)),
                      qd_low = sum_list (map (\<lambda>r. qd_low (quality_distribution r))
                                 (valid_results results)) \<rparr> \<rparr>),
           sum_failed_files = failed_files \<rparr>"
  by (simp add: generate_summary_report_def py_div_def Let_def)

lemma calculate_global_stats_avg:
  assumes "valid_results results \<noteq> []"
  shows "\<exists>gs. calculate_global_stats results = Inr (Some gs) \<and>
           gs_average_density gs =
             sum_list (map average_density (valid_results results)) /
             real (length (valid_results results)) \<and>
           gs_total_sentences gs = sum_list (map total_sentences (valid_results results))"
  using assms by (simp add: calculate_global_stats_def py_div_def Let_def)

lemma sorted_reverse_mset: "mset (sorted_reverse k xs) = mset xs"
  by (simp add: sorted_reverse_def)

lemma sorted_reverse_sorted: "sorted_wrt (\<lambda>a b. k b \<le> k a) (sorted_reverse k xs)"
proof -
  have "sorted (map (\<lambda>x. - k x) (sort_key (\<lambda>x. - k x) xs))"
    by (rule sorted_sort_key)
  then show ?thesis
    by (simp add: sorted_reverse_def sorted_map)
qed

lemma sorted_reverse_stable:
  "filter (\<lambda>x. k x = v) (sorted_reverse k xs) = filter (\<lambda>x. k x = v) xs"
  using sort_key_stable [of "\<lambda>x. - k x" "- v" xs] by (simp add: sorted_reverse_def)


section \<open>The claims\<close>

text \<open>
  C1: the information score of a scored sentence is the weighted sum of its counts, with
  the weights 3.0 for numbers, 2.5 for time words, 2.0 for professional terms, 2.5 for code
  snippets, 1.5 for links, 1.0 for conjunctions and -0.5 for modifiers, plus the context
  bonus: 1.8 for a heading and 1.2 for a list item, the first the larger, and nothing for
  a block quote. The plain-text analyzer has the same sum without code snippets, links
  and bonus.
\<close>

theorem C1_info_score_formula:
  "(analyze_sentence E PDFInfoDensityAnalyzer s = Some r \<longrightarrow>
      info_score r =
        real (numbers r) * 3.0 + real (time_words r) * 2.5 +
        real (professional_terms r) * 2.0 + real (conjunctions r) * 1.0 +
        real (modifiers r) * (- 0.5)) \<and>
   (md_analyze_sentence E' MarkdownInfoDensityAnalyzer s' cx = Some r' \<longrightarrow>
      ctx r' = cx \<and>
      info_score r' =
        real (numbers r') * 3.0 + real (time_words r') * 2.5 +
        real (professional_terms r') * 2.0 + real (code_snippets r') * 2.5 +
        real (links r') * 1.5 + real (conjunctions r') * 1.0 +
        real (modifiers r') * (- 0.5) +
        (case cx of
           None \<Rightarrow> 0
         | Some c \<Rightarrow> (if is_heading c then 1.8 else 0) + (if is_list_item c then 1.2 else 0))) \<and>
   list_item (weights MarkdownInfoDensityAnalyzer) < heading (weights MarkdownInfoDensityAnalyzer) \<and>
   map_option info_score
     (md_analyze_sentence E' MarkdownInfoDensityAnalyzer s' (Some (c\<lparr>is_blockquote := b\<rparr>))) =
   map_option info_score (md_analyze_sentence E' MarkdownInfoDensityAnalyzer s' (Some c))"
proof (intro conjI impI)
  assume a: "analyze_sentence E PDFInfoDensityAnalyzer s = Some r"
  show "info_score r =
        real (numbers r) * 3.0 + real (time_words r) * 2.5 +
        real (professional_terms r) * 2.0 + real (conjunctions r) * 1.0 +
        real (modifiers r) * (- 0.5)"
    using pdf_some(2) [OF a] by (simp add: PDFInfoDensityAnalyzer_def)
next
  assume a: "md_analyze_sentence E' MarkdownInfoDensityAnalyzer s' cx = Some r'"
  show "ctx r' = cx"
    using a by (rule md_some(6))
  then show "info_score r' =
        real (numbers r') * 3.0 + real (time_words r') * 2.5 +
        real (professional_terms r') * 2.0 + real (code_snippets r') * 2.5 +
        real (links r') * 1.5 + real (conjunctions r') * 1.0 +
        real (modifiers r') * (- 0.5) +
        (case cx of
           None \<Rightarrow> 0
         | Some c \<Rightarrow> (if is_heading c then 1.8 else 0) + (if is_list_item c then 1.2 else 0))"
    using md_some(2) [OF a] by (cases cx) (simp_all add: MarkdownInfoDensityAnalyzer_def)
next
  show "list_item (weights MarkdownInfoDensityAnalyzer) < heading (weights MarkdownInfoDensityAnalyzer)"
    by (simp add: MarkdownInfoDensityAnalyzer_def)
next
  show "map_option info_score
     (md_analyze_sentence E' MarkdownInfoDensityAnalyzer s' (Some (c\<lparr>is_blockquote := b\<rparr>))) =
   map_option info_score (md_analyze_sentence E' MarkdownInfoDensityAnalyzer s' (Some c))"
    by (rule md_blockquote_irrelevant)
qed

theorem C1_info_score_formula_witness:
  "\<exists>r r'. analyze_sentence demo_env PDFInfoDensityAnalyzer ex_sales = Some r \<and>
          info_score r = 5.5 \<and>
          md_analyze_sentence demo_env MarkdownInfoDensityAnalyzer ex_sales (Some ex_heading) = Some r' \<and>
          info_score r' = 7.3"
proof -
  obtain r where r: "analyze_sentence demo_env PDFInfoDensityAnalyzer ex_sales = Some r"
      "numbers r = 1" "time_words r = 1" "professional_terms r = 0" "conjunctions r = 0"
      "modifiers r = 0"
    using ex_sales_pdf by blast
  obtain r' where r': "md_analyze_sentence demo_env MarkdownInfoDensityAnalyzer ex_sales (Some ex_heading) = Some r'"
      "numbers r' = 1" "time_words r' = 1" "professional_terms r' = 0" "conjunctions r' = 0"
      "modifiers r' = 0" "code_snippets r' = 0" "links r' = 0"
    using ex_sales_md by blast
  have "info_score r = 5.5 \<and> info_score r' = 7.3"
    using C1_info_score_formula [where E = demo_env and s = ex_sales and r = r and E' = demo_env
        and s' = ex_sales and cx = "Some ex_heading" and r' = r'] r r'
    by (simp add: ex_heading_def)
  with r(1) r'(1) show ?thesis by blast
qed





text \<open>
  C10: the entity count of a scored sentence is the number of tokens longer than one
  character that are alphabetic throughout, and it is part of the result. The weight
  tables hold 2.0 for entities and 1.5 for verbs, but neither weight is used: changing
  them changes no result, and two scored sentences that agree in the character count,
  the scored counts and the context have the same score and density, whatever their
  entity counts.
\<close>

theorem C10_entities_not_scored:
  "(analyze_sentence E self s = Some r \<longrightarrow>
      entities r = count_where (\<lambda>w. length w > 1 \<and> str_isalpha E w) (lcut E s)) \<and>
   (md_analyze_sentence E self' s cx = Some u \<longrightarrow>
      entities u = count_where (\<lambda>w. length w > 1 \<and> str_isalpha E w) (lcut E s)) \<and>
   entity (weights PDFInfoDensityAnalyzer) = 2.0 \<and> verb (weights PDFInfoDensityAnalyzer) = 1.5 \<and>
   entity (weights MarkdownInfoDensityAnalyzer) = 2.0 \<and>
   verb (weights MarkdownInfoDensityAnalyzer) = 1.5 \<and>
   analyze_sentence E (self\<lparr>weights := (weights self)\<lparr>entity := x, verb := y\<rparr>\<rparr>) s =
     analyze_sentence E self s \<and>
   md_analyze_sentence E (self'\<lparr>weights := (weights self')\<lparr>entity := x, verb := y\<rparr>\<rparr>) s cx =
     md_analyze_sentence E self' s cx \<and>
   (analyze_sentence E self sa = Some ra \<and> analyze_sentence E self sb = Some rb \<and>
    numbers ra = numbers rb \<and> time_words ra = time_words rb \<and>
    professional_terms ra = professional_terms rb \<and> conjunctions ra = conjunctions rb \<and>
    modifiers ra = modifiers rb \<and> total_chars ra = total_chars rb \<longrightarrow>
      info_score ra = info_score rb \<and> density ra = density rb) \<and>
   (md_analyze_sentence E self' ta cx = Some ua \<and> md_analyze_sentence E self' tb cx = Some ub \<and>
    numbers ua = numbers ub \<and> time_words ua = time_words ub \<and>
    professional_terms ua = professional_terms ub \<and> conjunctions ua = conjunctions ub \<and>
    modifiers ua = modifiers ub \<and> code_snippets ua = code_snippets ub \<and> links ua = links ub \<and>
    total_chars ua = total_chars ub \<longrightarrow>
      info_score ua = info_score ub \<and> density ua = density ub)"
proof (intro conjI impI)
  assume "analyze_sentence E self s = Some r"
  then show "entities r = count_where (\<lambda>w. length w > 1 \<and> str_isalpha E w) (lcut E s)"
    by (rule pdf_some(5))
next
  assume "md_analyze_sentence E self' s cx = Some u"
  then show "entities u = count_where (\<lambda>w. length w > 1 \<and> str_isalpha E w) (lcut E s)"
    by (rule md_some(5))
next
  show "entity (weights PDFInfoDensityAnalyzer) = 2.0" "verb (weights PDFInfoDensityAnalyzer) = 1.5"
    by (simp_all add: PDFInfoDensityAnalyzer_def)
  show "entity (weights MarkdownInfoDensityAnalyzer) = 2.0"
    "verb (weights MarkdownInfoDensityAnalyzer) = 1.5"
    by (simp_all add: MarkdownInfoDensityAnalyzer_def)
  show "analyze_sentence E (self\<lparr>weights := (weights self)\<lparr>entity := x, verb := y\<rparr>\<rparr>) s =
     analyze_sentence E self s"
    by (rule pdf_weights_irrelevant)
  show "md_analyze_sentence E (self'\<lparr>weights := (weights self')\<lparr>entity := x, verb := y\<rparr>\<rparr>) s cx =
     md_analyze_sentence E self' s cx"
    by (rule md_weights_irrelevant)
next
  assume h: "analyze_sentence E self sa = Some ra \<and> analyze_sentence E self sb = Some rb \<and>
    numbers ra = numbers rb \<and> time_words ra = time_words rb \<and>
    professional_terms ra = professional_terms rb \<and> conjunctions ra = conjunctions rb \<and>
    modifiers ra = modifiers rb \<and> total_chars ra = total_chars rb"
  then have a1: "analyze_sentence E self sa = Some ra" and a2: "analyze_sentence E self sb = Some rb"
    by simp_all
  show sc: "info_score ra = info_score rb"
    using pdf_some(2) [OF a1] pdf_some(2) [OF a2] h by simp
  show "density ra = density rb"
    using pdf_some(3) [OF a1] pdf_some(3) [OF a2] sc h by simp
next
  assume h: "md_analyze_sentence E self' ta cx = Some ua \<and> md_analyze_sentence E self' tb cx = Some ub \<and>
    numbers ua = numbers ub \<and> time_words ua = time_words ub \<and>
    professional_terms ua = professional_terms ub \<and> conjunctions ua = conjunctions ub \<and>
    modifiers ua = modifiers ub \<and> code_snippets ua = code_snippets ub \<and> links ua = links ub \<and>
    total_chars ua = total_chars ub"
  then have a1: "md_analyze_sentence E self' ta cx = Some ua"
    and a2: "md_analyze_sentence E self' tb cx = Some ub"
    by simp_all
  have cx: "ctx ua = cx" "ctx ub = cx"
    using md_some(6) [OF a1] md_some(6) [OF a2] by simp_all
  show sc: "info_score ua = info_score ub"
    using md_some(2) [OF a1] md_some(2) [OF a2] h cx by simp
  show "density ua = density ub"
    using md_some(3) [OF a1] md_some(3) [OF a2] sc h by simp
qed

theorem C10_entities_not_scored_witness:
  "\<exists>ra rb ua ub.
     analyze_sentence demo_env PDFInfoDensityAnalyzer ex_plain = Some ra \<and>
     analyze_sentence demo_env PDFInfoDensityAnalyzer ex_underscore = Some rb \<and>
     entities ra = 2 \<and> entities rb = 1 \<and>
     info_score ra = info_score rb \<and> density ra = density rb \<and>
     md_analyze_sentence demo_env MarkdownInfoDensityAnalyzer ex_plain None = Some ua \<and>
     md_analyze_sentence demo_env MarkdownInfoDensityAnalyzer ex_underscore None = Some ub \<and>
     entities ua = 2 \<and> entities ub = 1 \<and>
     info_score ua = info_score ub \<and> density ua = density ub"
proof -
  obtain ra where ra: "analyze_sentence demo_env PDFInfoDensityAnalyzer ex_plain = Some ra"
      "numbers ra = 0" "time_words ra = 0" "professional_terms ra = 0" "conjunctions ra = 0"
      "modifiers ra = 0" "total_chars ra = 4" "entities ra = 2"
    using ex_plain_pdf by blast
  obtain rb where rb: "analyze_sentence demo_env PDFInfoDensityAnalyzer ex_underscore = Some rb"
      "numbers rb = 0" "time_words rb = 0" "professional_terms rb = 0" "conjunctions rb = 0"
      "modifiers rb = 0" "total_chars rb = 4" "entities rb = 1"
    using ex_underscore_pdf by blast
  obtain ua where ua: "md_analyze_sentence demo_env MarkdownInfoDensityAnalyzer ex_plain None = Some ua"
      "numbers ua = 0" "time_words ua = 0" "professional_terms ua = 0" "conjunctions ua = 0"
      "modifiers ua = 0" "code_snippets ua = 0" "links ua = 0" "total_chars ua = 4" "entities ua = 2"
    using ex_plain_md by blast
  obtain ub where ub: "md_analyze_sentence demo_env MarkdownInfoDensityAnalyzer ex_underscore None = Some ub"
      "numbers ub = 0" "time_words ub = 0" "professional_terms ub = 0" "conjunctions ub = 0"
      "modifiers ub = 0" "code_snippets ub = 0" "links ub = 0" "total_chars ub = 4" "entities ub = 1"
    using ex_underscore_md by blast
  have "info_score ra = info_score rb \<and> density ra = density rb \<and>
        info_score ua = info_score ub \<and> density ua = density ub"
    using C10_entities_not_scored [where E = demo_env and self = PDFInfoDensityAnalyzer
        and self' = MarkdownInfoDensityAnalyzer and s = ex_plain and r = ra and u = ua
        and cx = None and sa = ex_plain and ra = ra and sb = ex_underscore and rb = rb
        and ta = ex_plain and ua = ua and tb = ex_underscore and ub = ub] ra rb ua ub
    by simp
  then show ?thesis
    using ra rb ua ub by (intro exI [of _ ra] exI [of _ rb] exI [of _ ua] exI [of _ ub]) simp
qed

text \<open>
  C2: the paragraph splitter sets a break, two line feeds, immediately behind every
  U+3002, U+FF1F and U+FF01 that is met outside a quoted span, and sets none behind such
  a mark inside a quoted span (opened by U+0022 or U+0027 and not yet closed); the mark
  stays in the output. The ASCII marks full stop, exclamation mark and question mark
  stay in the output and never get a break, inside or outside a quoted span, and do not
  change the quoting state.
\<close>

theorem C2_break_after_mark_outside_quotes:
  "(m \<in> set break_marks \<longrightarrow>
      process_content (pre @ m # post) =
        collapse_newlines (scan pre False None []) @ m #
          (let q = fst (scan_state pre False None); c = snd (scan_state pre False None) in
           if q then collapse_newlines (scan post q c [])
           else 0x0A # 0x0A #
                collapse_newlines (dropWhile (\<lambda>x. x = 0x0A) (scan post q c [])))) \<and>
   (a = 0x2E \<or> a = 0x21 \<or> a = 0x3F \<longrightarrow>
      scan_state (pre @ [a]) False None = scan_state pre False None \<and>
      process_content (pre @ a # post) =
        collapse_newlines (scan pre False None []) @ a #
          collapse_newlines
            (scan post (fst (scan_state pre False None)) (snd (scan_state pre False None)) []))"
  using process_content_break_mark [of m pre post] process_content_ascii_mark [of a pre post]
    scan_state_ascii_mark [of a pre False None]
  by blast

theorem C2_break_after_mark_outside_quotes_witness:
  "process_content (ex_quote_open @ 0xFF1F # ex_quote_rest @ [0x3002]) =
     ex_quote_open @ 0xFF1F # ex_quote_rest @ [0x3002, 0x0A, 0x0A] \<and>
   process_content ([0x61] @ 0x2E # [0x62]) = [0x61, 0x2E, 0x62]"
proof -
  have m1: "(0xFF1F::nat) \<in> set break_marks" and m2: "(0x3002::nat) \<in> set break_marks"
    by (simp_all add: break_marks_def)
  have a: "(0x2E::nat) = 0x2E \<or> (0x2E::nat) = 0x21 \<or> (0x2E::nat) = 0x3F"
    by simp
  have inner: "process_content (ex_quote_open @ 0xFF1F # ex_quote_rest @ [0x3002]) =
      ex_quote_open @ 0xFF1F # process_content_tail"
    if "process_content_tail = collapse_newlines (scan (ex_quote_rest @ [0x3002]) True (Some 0x22) [])"
    for process_content_tail
    using C2_break_after_mark_outside_quotes [where m = "0xFF1F" and pre = ex_quote_open
        and post = "ex_quote_rest @ [0x3002]" and a = "0x2E"] m1 that
    by (simp add: ex_quote_open_def quote_pairs_def break_marks_def Let_def)
  have tail: "collapse_newlines (scan (ex_quote_rest @ [0x3002]) True (Some 0x22) []) =
      ex_quote_rest @ [0x3002, 0x0A, 0x0A]"
    by (simp add: ex_quote_rest_def quote_pairs_def break_marks_def)
  have ascii: "process_content ([0x61] @ 0x2E # [0x62]) = [0x61, 0x2E, 0x62]"
    using C2_break_after_mark_outside_quotes [where m = "0x3002" and pre = "[0x61]"
        and post = "[0x62]" and a = "0x2E"] a
    by (simp add: quote_pairs_def break_marks_def)
  show ?thesis
    using inner [OF refl] tail ascii by simp
qed

theorem C2_ascii_mark_counterexample:
  "\<not> fst (scan_state [0x61] False None) \<and>
   process_content [0x61, 0x2E, 0x62] = [0x61, 0x2E, 0x62] \<and>
   0x0A \<notin> set (process_content [0x61, 0x2E, 0x62]) \<and>
   process_content ex_quote_dots = ex_quote_dots"
  by (simp add: process_content_def ex_quote_dots_def quote_pairs_def break_marks_def)

text \<open>
  C6: in every document record built from at least one scored sentence, the counts of
  high, medium and low sentences add up to the number of scored sentences.
\<close>

theorem C6_histogram_sums_to_total:
  "(analyze_text E self body fname = Inr (Valid_doc d) \<longrightarrow>
      0 < total_sentences d \<and>
      qd_high (quality_distribution d) + qd_medium (quality_distribution d) +
        qd_low (quality_distribution d) = total_sentences d) \<and>
   (analyze_markdown_content E' self' content_opt fname' = Inr (Valid_doc d') \<longrightarrow>
      0 < total_sentences d' \<and>
      qd_high (quality_distribution d') + qd_medium (quality_distribution d') +
        qd_low (quality_distribution d') = total_sentences d')"
proof (intro conjI impI)
  assume a: "analyze_text E self body fname = Inr (Valid_doc d)"
  obtain rs where rs: "rs = List.map_filter (analyze_sentence E self) (split_sentences E body)"
      "rs \<noteq> []" "total_sentences d = length rs"
      "quality_distribution d =
         \<lparr> qd_high = count_where (\<lambda>r. quality r = q_high) rs,
           qd_medium = count_where (\<lambda>r. quality r = q_medium) rs,
           qd_low = count_where (\<lambda>r. quality r = q_low) rs \<rparr>"
    using analyze_text_valid [OF a] by blast
  have "\<forall>r \<in> set rs. quality r = q_high \<or> quality r = q_medium \<or> quality r = q_low"
    unfolding rs(1) by (rule map_filter_range) (rule pdf_quality_range)
  then show "qd_high (quality_distribution d) + qd_medium (quality_distribution d) +
        qd_low (quality_distribution d) = total_sentences d"
    using quality_counts [of rs] rs(3,4) by simp
  show "0 < total_sentences d"
    using rs(2,3) by simp
next
  assume a: "analyze_markdown_content E' self' content_opt fname' = Inr (Valid_doc d')"
  obtain rs c where rs: "rs = List.map_filter
                  (\<lambda>s. md_analyze_sentence E' self' s (Some (get_sentence_context E' s c)))
                  (md_split_sentences E' (clean_markdown_text E' c))"
      "rs \<noteq> []" "total_sentences d' = length rs"
      "quality_distribution d' =
         \<lparr> qd_high = count_where (\<lambda>r. quality r = q_high) rs,
           qd_medium = count_where (\<lambda>r. quality r = q_medium) rs,
           qd_low = count_where (\<lambda>r. quality r = q_low) rs \<rparr>"
    using md_content_valid [OF a] by blast
  have "\<forall>r \<in> set rs. quality r = q_high \<or> quality r = q_medium \<or> quality r = q_low"
    unfolding rs(1) by (rule map_filter_range) (rule md_quality_range)
  then show "qd_high (quality_distribution d') + qd_medium (quality_distribution d') +
        qd_low (quality_distribution d') = total_sentences d'"
    using quality_counts [of rs] rs(3,4) by simp
  show "0 < total_sentences d'"
    using rs(2,3) by simp
qed

theorem C6_histogram_sums_to_total_witness:
  "\<exists>d d'. analyze_text demo_env PDFInfoDensityAnalyzer ex_doc_text [0x61] = Inr (Valid_doc d) \<and>
     quality_distribution d = \<lparr> qd_high = 1, qd_medium = 0, qd_low = 1 \<rparr> \<and>
     total_sentences d = 2 \<and>
     qd_high (quality_distribution d) + qd_medium (quality_distribution d) +
       qd_low (quality_distribution d) = total_sentences d \<and>
     analyze_markdown_content demo_md_env MarkdownInfoDensityAnalyzer (Some ex_doc_text) [0x61] =
       Inr (Valid_doc d') \<and>
     qd_high (quality_distribution d') + qd_medium (quality_distribution d') +
       qd_low (quality_distribution d') = total_sentences d'"
proof -
  obtain d where d: "analyze_text demo_env PDFInfoDensityAnalyzer ex_doc_text [0x61] = Inr (Valid_doc d)"
      "total_sentences d = 2" "quality_distribution d = \<lparr> qd_high = 1, qd_medium = 0, qd_low = 1 \<rparr>"
    using ex_doc_pdf by blast
  obtain d' where d': "analyze_markdown_content demo_md_env MarkdownInfoDensityAnalyzer
        (Some ex_doc_text) [0x61] = Inr (Valid_doc d')"
    using ex_doc_md by blast
  show ?thesis
    using C6_histogram_sums_to_total [where E = demo_env and self = PDFInfoDensityAnalyzer
        and body = ex_doc_text and fname = "[0x61]" and d = d and E' = demo_md_env
        and self' = MarkdownInfoDensityAnalyzer and content_opt = "Some ex_doc_text"
        and fname' = "[0x61]" and d' = d'] d d'
    by blast
qed

text \<open>
  C7: the analysis of a document never divides by zero. The record of a document without
  scored sentences (empty body, no sentence kept, or no sentence scored) has zero
  sentences and the ratio 0; every other record has at least one sentence, and its ratio
  of high quality is the number of high sentences divided by the number of sentences.
\<close>

theorem C7_high_quality_ratio:
  "(\<exists>d. analyze_text E self body fname = Inr d \<and>
        (case d of
           Error_doc e \<Rightarrow> err_total_sentences e = 0 \<and> err_high_quality_ratio e = 0
         | Valid_doc v \<Rightarrow>
             0 < total_sentences v \<and>
             high_quality_ratio v =
               real (qd_high (quality_distribution v)) / real (total_sentences v))) \<and>
   (\<exists>d. analyze_markdown_content E' self' content_opt fname' = Inr d \<and>
        (case d of
           Error_doc e \<Rightarrow> err_total_sentences e = 0 \<and> err_high_quality_ratio e = 0
         | Valid_doc v \<Rightarrow>
             0 < total_sentences v \<and>
             high_quality_ratio v =
               real (qd_high (quality_distribution v)) / real (total_sentences v)))"
proof
  obtain d where d: "analyze_text E self body fname = Inr d"
    using analyze_text_total by blast
  have "case d of
           Error_doc e \<Rightarrow> err_total_sentences e = 0 \<and> err_high_quality_ratio e = 0
         | Valid_doc v \<Rightarrow>
             0 < total_sentences v \<and>
             high_quality_ratio v =
               real (qd_high (quality_distribution v)) / real (total_sentences v)"
  proof (cases d)
    case (Error_doc e)
    then show ?thesis
      using analyze_text_error [of E self body fname e] d by simp
  next
    case (Valid_doc v)
    then show ?thesis
      using analyze_text_valid [of E self body fname v] d by auto
  qed
  with d show "\<exists>d. analyze_text E self body fname = Inr d \<and>
        (case d of
           Error_doc e \<Rightarrow> err_total_sentences e = 0 \<and> err_high_quality_ratio e = 0
         | Valid_doc v \<Rightarrow>
             0 < total_sentences v \<and>
             high_quality_ratio v =
               real (qd_high (quality_distribution v)) / real (total_sentences v))"
    by blast
next
  obtain d where d: "analyze_markdown_content E' self' content_opt fname' = Inr d"
    using md_content_total by blast
  have "case d of
           Error_doc e \<Rightarrow> err_total_sentences e = 0 \<and> err_high_quality_ratio e = 0
         | Valid_doc v \<Rightarrow>
             0 < total_sentences v \<and>
             high_quality_ratio v =
               real (qd_high (quality_distribution v)) / real (total_sentences v)"
  proof (cases d)
    case (Error_doc e)
    then show ?thesis
      using md_content_error [of E' self' content_opt fname' e] d by simp
  next
    case (Valid_doc v)
    then show ?thesis
      using md_content_valid [of E' self' content_opt fname' v] d by auto
  qed
  with d show "\<exists>d. analyze_markdown_content E' self' content_opt fname' = Inr d \<and>
        (case d of
           Error_doc e \<Rightarrow> err_total_sentences e = 0 \<and> err_high_quality_ratio e = 0
         | Valid_doc v \<Rightarrow>
             0 < total_sentences v \<and>
             high_quality_ratio v =
               real (qd_high (quality_distribution v)) / real (total_sentences v))"
    by blast
qed

text \<open>
  C8: of the stripped pieces of the split body, the plain-body analyzer keeps exactly
  those longer than 5 characters, that is of at least 6, and the markdown analyzer exactly
  those longer than 3 characters, that is of at least 4, in their order.
\<close>

theorem C8_kept_segments:
  "split_sentences E body =
     filter (\<lambda>t. 6 \<le> length t) (map (strip E) (re_split sentence_sep body)) \<and>
   md_split_sentences E body =
     filter (\<lambda>t. 4 \<le> length t) (map (strip E) (re_split sentence_sep body))"
  using keep_filter [of "strip E" 5 "re_split sentence_sep body"]
    keep_filter [of "strip E" 3 "re_split sentence_sep body"]
  by (simp add: split_sentences_def md_split_sentences_def eval_nat_numeral)

theorem C8_length_five_counterexample:
  "re_split sentence_sep [0x61, 0x62, 0x63, 0x64, 0x65, 0x3002] = [[0x61, 0x62, 0x63, 0x64, 0x65], []] \<and>
   length (strip demo_env [0x61, 0x62, 0x63, 0x64, 0x65]) = 5 \<and>
   split_sentences demo_env [0x61, 0x62, 0x63, 0x64, 0x65, 0x3002] = [] \<and>
   re_split sentence_sep [0x61, 0x62, 0x63, 0x3002] = [[0x61, 0x62, 0x63], []] \<and>
   length (strip demo_env [0x61, 0x62, 0x63]) = 3 \<and>
   md_split_sentences demo_env [0x61, 0x62, 0x63, 0x3002] = []"
  by (simp add: split_sentences_def md_split_sentences_def sentence_sep_def strip_def demo_defs)

text \<open>
  C4: over a batch with at least one valid document record, the global mean density is
  the sum of the documents' average densities divided by the number of valid documents,
  whatever their sentence counts, and the ranking lists the valid documents by average
  density in descending order (the first ten in the plain-text report, the first fifteen
  in the markdown report; documents of equal density in the order of the batch). Three
  documents of densities 0.20, 0.05 and 0.12 are ranked first, third, second.
\<close>

theorem C4_global_mean_and_ranking:
  "(valid_results results \<noteq> [] \<longrightarrow>
      (\<exists>s ov. generate_summary_report results failed_files = Inr s \<and>
         sum_overall s = Some ov \<and>
         ov_avg_density ov =
           sum_list (map average_density (valid_results results)) /
           real (length (valid_results results)) \<and>
         ov_ranking ov = take 10 (sorted_reverse average_density (valid_results results)) \<and>
         sorted_wrt (\<lambda>a b. average_density b \<le> average_density a) (ov_ranking ov))) \<and>
   (valid_results md_results \<noteq> [] \<longrightarrow>
      (\<exists>gs. calculate_global_stats md_results = Inr (Some gs) \<and>
         gs_average_density gs =
           sum_list (map average_density (valid_results md_results)) /
           real (length (valid_results md_results))) \<and>
      md_ranking md_results = take 15 (sorted_reverse average_density (valid_results md_results)) \<and>
      sorted_wrt (\<lambda>a b. average_density b \<le> average_density a) (md_ranking md_results)) \<and>
   mset (sorted_reverse average_density docs) = mset docs \<and>
   sorted_wrt (\<lambda>a b. average_density b \<le> average_density a)
     (sorted_reverse average_density docs) \<and>
   filter (\<lambda>x. average_density x = v) (sorted_reverse average_density docs) =
     filter (\<lambda>x. average_density x = v) docs \<and>
   (average_density da = 0.20 \<and> average_density db = 0.05 \<and> average_density dc = 0.12 \<longrightarrow>
      sorted_reverse average_density [da, db, dc] = [da, dc, db])"
proof (intro conjI impI)
  assume v: "valid_results results \<noteq> []"
  let ?ov = "\<lparr> ov_total_sentences = sum_list (map total_sentences (valid_results results)),
                  ov_total_chars = sum_list (map doc_total_chars (valid_results results)),
                  ov_avg_density =
                    sum_list (map average_density (valid_results results)) /
                    real (length (valid_results results)),
                  ov_high_quality_sentences =
                    sum_list (map (\<lambda>r. qd_high (quality_distribution r)) (valid_results results)),
                  ov_high_quality_ratio =
                    (if sum_list (map total_sentences (valid_results results)) > 0
                     then real (sum_list (map (\<lambda>r. qd_high (quality_distribution r))
                                 (valid_results results))) /
                          real (sum_list (map total_sentences (valid_results results)))
                     else 0),
                  ov_ranking = take 10 (sorted_reverse average_density (valid_results results)),
                  ov_quality_totals =
                    \<lparr> qd_high = sum_list (map (\<lambda>r. qd_high (quality_distribution r))
                                  (valid_results results)),
                      qd_medium = sum_list (map (\<lambda>r. qd_medium (quality_distribution r))
                                    (valid_results results)),
                      qd_low = sum_list (map (\<lambda>r. qd_low (quality_distribution r))
                                 (valid_results results)) \<rparr> \<rparr>"
  obtain s where s: "generate_summary_report results failed_files = Inr s"
      "sum_overall s = Some ?ov"
    using v by (simp add: generate_summary_report_eq)
  have srt: "sorted_wrt (\<lambda>a b. average_density b \<le> average_density a) (ov_ranking ?ov)"
    using sorted_reverse_sorted [of average_density "valid_results results"]
    by simp
  show "\<exists>s ov. generate_summary_report results failed_files = Inr s \<and>
         sum_overall s = Some ov \<and>
         ov_avg_density ov =
           sum_list (map average_density (valid_results results)) /
           real (length (valid_results results)) \<and>
         ov_ranking ov = take 10 (sorted_reverse average_density (valid_results results)) \<and>
         sorted_wrt (\<lambda>a b. average_density b \<le> average_density a) (ov_ranking ov)"
  proof (rule exI [of _ s], rule exI [of _ ?ov], intro conjI)
    show "generate_summary_report results failed_files = Inr s"
      by (rule s(1))
    show "sum_overall s = Some ?ov"
      by (rule s(2))
    show "ov_avg_density ?ov =
           sum_list (map average_density (valid_results results)) /
           real (length (valid_results results))"
      by simp
    show "ov_ranking ?ov = take 10 (sorted_reverse average_density (valid_results results))"
      by simp
    show "sorted_wrt (\<lambda>a b. average_density b \<le> average_density a) (ov_ranking ?ov)"
      by (rule srt)
  qed
next
  assume v: "valid_results md_results \<noteq> []"
  show "\<exists>gs. calculate_global_stats md_results = Inr (Some gs) \<and>
         gs_average_density gs =
           sum_list (map average_density (valid_results md_results)) /
           real (length (valid_results md_results))"
    using calculate_global_stats_avg [OF v] by blast
  show "md_ranking md_results = take 15 (sorted_reverse average_density (valid_results md_results))"
    by (simp add: md_ranking_def)
  show "sorted_wrt (\<lambda>a b. average_density b \<le> average_density a) (md_ranking md_results)"
    using sorted_reverse_sorted [of average_density "valid_results md_results"]
    by (simp add: md_ranking_def)
next
  show "mset (sorted_reverse average_density docs) = mset docs"
    by (rule sorted_reverse_mset)
  show "sorted_wrt (\<lambda>a b. average_density b \<le> average_density a)
     (sorted_reverse average_density docs)"
    by (rule sorted_reverse_sorted)
  show "filter (\<lambda>x. average_density x = v) (sorted_reverse average_density docs) =
     filter (\<lambda>x. average_density x = v) docs"
    by (rule sorted_reverse_stable)
next
  assume "average_density da = 0.20 \<and> average_density db = 0.05 \<and> average_density dc = 0.12"
  then show "sorted_reverse average_density [da, db, dc] = [da, dc, db]"
    by (simp add: sorted_reverse_def)
qed

theorem C4_global_mean_and_ranking_witness:
  "\<exists>s ov gs.
     generate_summary_report
       [Valid_doc (ex_record [0x61] 1 0.20), Valid_doc (ex_record [0x62] 5 0.05),
        Valid_doc (ex_record [0x63] 2 0.12)] [] = Inr s \<and>
     sum_overall s = Some ov \<and> ov_avg_density ov = 37 / 300 \<and>
     map filename (ov_ranking ov) = [[0x61], [0x63], [0x62]] \<and>
     map average_density (ov_ranking ov) = [0.20, 0.12, 0.05] \<and>
     calculate_global_stats
       [Valid_doc (ex_md_record [0x61] 1 0.20), Valid_doc (ex_md_record [0x62] 5 0.05),
        Valid_doc (ex_md_record [0x63] 2 0.12)] = Inr (Some gs) \<and>
     gs_average_density gs = 37 / 300 \<and>
     map average_density
       (md_ranking
          [Valid_doc (ex_md_record [0x61] 1 0.20), Valid_doc (ex_md_record [0x62] 5 0.05),
           Valid_doc (ex_md_record [0x63] 2 0.12)]) = [0.20, 0.12, 0.05]"
proof -
  let ?rs = "[Valid_doc (ex_record [0x61] 1 0.20), Valid_doc (ex_record [0x62] 5 0.05),
        Valid_doc (ex_record [0x63] 2 0.12)]
        :: pdf_doc list"
  let ?ms = "[Valid_doc (ex_md_record [0x61] 1 0.20), Valid_doc (ex_md_record [0x62] 5 0.05),
        Valid_doc (ex_md_record [0x63] 2 0.12)] :: md_doc list"
  have v: "valid_results ?rs \<noteq> []" "valid_results ?ms \<noteq> []"
    by simp_all
  have d: "average_density (ex_record [0x61] 1 0.20) = 0.20 \<and>
           average_density (ex_record [0x62] 5 0.05) = 0.05 \<and>
           average_density (ex_record [0x63] 2 0.12) = 0.12"
    by (simp add: ex_record_def)
  have dm: "average_density (ex_md_record [0x61] 1 0.20) = 0.20 \<and>
           average_density (ex_md_record [0x62] 5 0.05) = 0.05 \<and>
           average_density (ex_md_record [0x63] 2 0.12) = 0.12"
    by (simp add: ex_md_record_def)
  note c4 = C4_global_mean_and_ranking [where results = ?rs and failed_files = "[]"
      and md_results = ?ms and da = "ex_record [0x61] 1 0.20" and db = "ex_record [0x62] 5 0.05"
      and dc = "ex_record [0x63] 2 0.12"]
  note c4m = C4_global_mean_and_ranking [where results = ?rs and failed_files = "[]"
      and md_results = ?ms and da = "ex_md_record [0x61] 1 0.20"
      and db = "ex_md_record [0x62] 5 0.05" and dc = "ex_md_record [0x63] 2 0.12"]
  have r: "sorted_reverse average_density (valid_results ?rs) =
      [ex_record [0x61] 1 0.20, ex_record [0x63] 2 0.12, ex_record [0x62] 5 0.05]"
    using c4 [THEN conjunct2, THEN conjunct2, THEN conjunct2, THEN conjunct2, THEN conjunct2,
        THEN mp, OF d]
    by simp
  have rm: "sorted_reverse average_density (valid_results ?ms) =
      [ex_md_record [0x61] 1 0.20, ex_md_record [0x63] 2 0.12, ex_md_record [0x62] 5 0.05]"
    using c4m [THEN conjunct2, THEN conjunct2, THEN conjunct2, THEN conjunct2, THEN conjunct2,
        THEN mp, OF dm]
    by simp
  obtain s ov where s: "generate_summary_report ?rs [] = Inr s" "sum_overall s = Some ov"
      "ov_avg_density ov = sum_list (map average_density (valid_results ?rs)) /
           real (length (valid_results ?rs))"
      "ov_ranking ov = take 10 (sorted_reverse average_density (valid_results ?rs))"
    using c4 [THEN conjunct1, THEN mp, OF v(1)] by blast
  obtain gs where gs: "calculate_global_stats ?ms = Inr (Some gs)"
      "gs_average_density gs = sum_list (map average_density (valid_results ?ms)) /
           real (length (valid_results ?ms))"
    using c4 [THEN conjunct2, THEN conjunct1, THEN mp, OF v(2)] by blast
  have mr: "md_ranking ?ms = take 15 (sorted_reverse average_density (valid_results ?ms))"
    using c4 [THEN conjunct2, THEN conjunct1, THEN mp, OF v(2)] by blast
  have f1: "ov_avg_density ov = 37 / 300"
    using s(3) by (simp add: ex_record_def)
  have f2: "map filename (ov_ranking ov) = [[0x61], [0x63], [0x62]]"
    unfolding s(4) r by (simp add: ex_record_def)
  have f3: "map average_density (ov_ranking ov) = [0.20, 0.12, 0.05]"
    unfolding s(4) r by (simp add: ex_record_def)
  have f4: "gs_average_density gs = 37 / 300"
    using gs(2) by (simp add: ex_md_record_def)
  have f5: "map average_density (md_ranking ?ms) = [0.20, 0.12, 0.05]"
    unfolding mr rm by (simp add: ex_md_record_def)
  show ?thesis
    by (rule exI [of _ s], rule exI [of _ ov], rule exI [of _ gs], intro conjI)
       (rule s(1) s(2) gs(1) f1 f2 f3 f4 f5)+
qed



end
